theory Spec2Isabelle
  imports Main
begin

section \<open>JavaScript values and string primitives\<close>

text \<open>
  The handlers of \<^verbatim>\<open>client/src/__tests__/mocks/handlers.js\<close> and the provider of
  \<^verbatim>\<open>client/src/context/AuthContext.jsx\<close> exchange JSON bodies. A JavaScript value is
  a \<open>jsval\<close>; an object literal is the list of its properties in source order. Numbers
  are the integers (every number the handlers build is one). A string is a list of code
  units; the model covers the code units below 256, one \<open>char\<close> each.
\<close>

datatype jsval =
    JUndefined
  | JNull
  | JBool bool
  | JNum int
  | JStr string
  | JArr "jsval list"
  | JObj "(string \<times> jsval) list"

text \<open>\<^verbatim>\<open>!!v\<close>: the truthiness of a value.\<close>

fun truthy :: "jsval \<Rightarrow> bool" where
  "truthy JUndefined = False"
| "truthy JNull = False"
| "truthy (JBool b) = b"
| "truthy (JNum n) = (n \<noteq> 0)"
| "truthy (JStr s) = (s \<noteq> [])"
| "truthy (JArr xs) = True"
| "truthy (JObj fs) = True"

text \<open>
  \<^verbatim>\<open>v.k\<close> for the property names the code reads (\<open>success\<close>, \<open>message\<close>, \<open>data\<close>,
  \<open>user\<close>, \<open>token\<close>, none of which a string, number, boolean or array has): reading a
  property of \<open>undefined\<close> or \<open>null\<close> throws a TypeError (\<open>None\<close>); a missing property is
  \<open>undefined\<close>.
\<close>

fun getprop :: "jsval \<Rightarrow> string \<Rightarrow> jsval option" where
  "getprop JUndefined k = None"
| "getprop JNull k = None"
| "getprop (JObj fs) k = Some (case map_of fs k of None \<Rightarrow> JUndefined | Some v \<Rightarrow> v)"
| "getprop v k = Some JUndefined"

text \<open>
  A field of a parsed request body, or a header read with \<^verbatim>\<open>headers.get\<close>: a string, or
  absent (\<open>undefined\<close>, \<open>null\<close>). \<^verbatim>\<open>!x\<close> holds of the absent field and of the empty string.
\<close>

fun falsy :: "string option \<Rightarrow> bool" where
  "falsy None = True"
| "falsy (Some s) = (s = [])"

text \<open>\<^verbatim>\<open>s.startsWith(p)\<close>.\<close>

fun startsWith :: "string \<Rightarrow> string \<Rightarrow> bool" where
  "startsWith s [] = True"
| "startsWith [] (p # ps) = False"
| "startsWith (c # cs) (p # ps) = (c = p \<and> startsWith cs ps)"

text \<open>
  \<^verbatim>\<open>s.split(sep)\<close> for a separator of one character: the pieces between the
  separators, empty pieces included; the empty string gives one empty piece.
\<close>

fun split :: "char \<Rightarrow> string \<Rightarrow> string list" where
  "split sep [] = [[]]"
| "split sep (c # cs) =
     (if c = sep then [] # split sep cs
      else (case split sep cs of
              [] \<Rightarrow> [[c]]
            | w # ws \<Rightarrow> (c # w) # ws))"

text \<open>\<^verbatim>\<open>xs[i]\<close>: \<open>undefined\<close> (\<open>None\<close>) out of range.\<close>

definition at :: "'a list \<Rightarrow> nat \<Rightarrow> 'a option" where
  "at xs i = (if i < length xs then Some (xs ! i) else None)"

text \<open>
  A non-negative integer in a template literal: its decimal digits (JavaScript prints
  the integers below \<open>10\<^sup>2\<^sup>1\<close> so).
\<close>

definition digit :: "nat \<Rightarrow> char" where
  "digit d = ''0123456789'' ! d"

function numToString :: "nat \<Rightarrow> string" where
  "numToString n = (if n < 10 then [digit n] else numToString (n div 10) @ [digit (n mod 10)])"
  by pat_completeness auto
termination
  by (relation "measure id") auto

declare numToString.simps [simp del]

text \<open>
  \<^verbatim>\<open>parseInt(s)\<close> with no radix: leading white space is skipped, a sign is read, a
  prefix \<open>0x\<close> or \<open>0X\<close> selects radix 16, and the longest run of digits of the radix is
  the value; with no digit the result is \<open>NaN\<close> (\<open>None\<close>). The value is kept exact
  (JavaScript rounds it to a double beyond \<open>2\<^sup>5\<^sup>3\<close>).
\<close>

definition isWhiteSpace :: "char \<Rightarrow> bool" where
  "isWhiteSpace c = (of_char c \<in> {9, 10, 11, 12, 13, 32, 160 :: nat})"

definition digitValue :: "char \<Rightarrow> nat option" where
  "digitValue c =
     (let k = (of_char c :: nat) in
      if 48 \<le> k \<and> k \<le> 57 then Some (k - 48)
      else if 97 \<le> k \<and> k \<le> 122 then Some (k - 87)
      else if 65 \<le> k \<and> k \<le> 90 then Some (k - 55)
      else None)"

definition isDigitOf :: "nat \<Rightarrow> char \<Rightarrow> bool" where
  "isDigitOf radix c = (case digitValue c of None \<Rightarrow> False | Some d \<Rightarrow> d < radix)"

definition digitsValue :: "nat \<Rightarrow> string \<Rightarrow> nat" where
  "digitsValue radix ds =
     foldl (\<lambda>acc c. acc * radix + (case digitValue c of None \<Rightarrow> 0 | Some d \<Rightarrow> d)) 0 ds"

definition parseDigits :: "nat \<Rightarrow> string \<Rightarrow> nat option" where
  "parseDigits radix s =
     (let ds = takeWhile (isDigitOf radix) s in
      if ds = [] then None else Some (digitsValue radix ds))"

definition parseUnsigned :: "string \<Rightarrow> nat option" where
  "parseUnsigned s =
     (if startsWith s ''0x'' \<or> startsWith s ''0X'' then parseDigits 16 (drop 2 s)
      else parseDigits 10 s)"

definition parseInt :: "string \<Rightarrow> int option" where
  "parseInt s =
     (case dropWhile isWhiteSpace s of
        c # r \<Rightarrow>
          if c = CHR ''-'' then map_option (\<lambda>n. - int n) (parseUnsigned r)
          else if c = CHR ''+'' then map_option int (parseUnsigned r)
          else map_option int (parseUnsigned (c # r))
      | [] \<Rightarrow> None)"

text \<open>The characters \<open>numToString\<close> writes.\<close>

definition decimalDigit :: "char \<Rightarrow> bool" where
  "decimalDigit c = (c \<in> set ''0123456789'')"

section \<open>Regular expressions\<close>

text \<open>
  The regular expressions of the source are literals; \<open>rexp\<close> gives their syntax and
  \<open>test\<close> matches a whole string by derivatives, which is what \<^verbatim>\<open>re.test(s)\<close> decides for
  a literal anchored with \<^verbatim>\<open>^\<close> and \<^verbatim>\<open>$\<close> and no flags.
\<close>

datatype rexp =
    Never
  | Empty
  | Class "char \<Rightarrow> bool"
  | Or rexp rexp
  | Then rexp rexp
  | Many rexp

definition Many1 :: "rexp \<Rightarrow> rexp" where
  "Many1 r = Then r (Many r)"

fun nullable :: "rexp \<Rightarrow> bool" where
  "nullable Never = False"
| "nullable Empty = True"
| "nullable (Class P) = False"
| "nullable (Or r s) = (nullable r \<or> nullable s)"
| "nullable (Then r s) = (nullable r \<and> nullable s)"
| "nullable (Many r) = True"

fun deriv :: "char \<Rightarrow> rexp \<Rightarrow> rexp" where
  "deriv c Never = Never"
| "deriv c Empty = Never"
| "deriv c (Class P) = (if P c then Empty else Never)"
| "deriv c (Or r s) = Or (deriv c r) (deriv c s)"
| "deriv c (Then r s) =
     (if nullable r then Or (Then (deriv c r) s) (deriv c s) else Then (deriv c r) s)"
| "deriv c (Many r) = Then (deriv c r) (Many r)"

fun test :: "rexp \<Rightarrow> string \<Rightarrow> bool" where
  "test r [] = nullable r"
| "test r (c # cs) = test (deriv c r) cs"

text \<open>
  What a regular expression denotes: the set of the strings it matches. \<open>test\<close> is
  checked against it below.
\<close>

inductive_set repeated :: "string set \<Rightarrow> string set" for A :: "string set" where
  none: "[] \<in> repeated A"
| more: "u \<in> A \<Longrightarrow> v \<in> repeated A \<Longrightarrow> u @ v \<in> repeated A"

fun lang :: "rexp \<Rightarrow> string set" where
  "lang Never = {}"
| "lang Empty = {[]}"
| "lang (Class P) = {[c] | c. P c}"
| "lang (Or r s) = lang r \<union> lang s"
| "lang (Then r s) = {u @ v | u v. u \<in> lang r \<and> v \<in> lang s}"
| "lang (Many r) = repeated (lang r)"

text \<open>\<^verbatim>\<open>[^\s@]\<close>: \<^verbatim>\<open>\s\<close> is the white space of the language.\<close>

definition notSpaceOrAt :: "char \<Rightarrow> bool" where
  "notSpaceOrAt c = (\<not> isWhiteSpace c \<and> c \<noteq> CHR ''@'')"

text \<open>\<^verbatim>\<open>/^[^\s@]+@[^\s@]+\.[^\s@]+$/\<close>\<close>

definition emailRegex :: rexp where
  "emailRegex =
     Then (Many1 (Class notSpaceOrAt))
       (Then (Class (\<lambda>c. c = CHR ''@''))
         (Then (Many1 (Class notSpaceOrAt))
           (Then (Class (\<lambda>c. c = CHR ''.''))
             (Many1 (Class notSpaceOrAt)))))"

section \<open>The mock service: \<^verbatim>\<open>handlers.js\<close>\<close>

text \<open>
  An element of \<^verbatim>\<open>mockUsers\<close>. The identifiers are non-negative integers, in the range
  where a JavaScript number is an exact integer (below \<open>2\<^sup>5\<^sup>3\<close>).
\<close>

record user =
  u_id :: nat
  u_email :: string
  u_firstName :: string
  u_lastName :: string
  u_password :: string
  u_createdAt :: string

text \<open>
  The two module-level tables the handlers read: the array \<^verbatim>\<open>mockUsers\<close> and the object
  \<^verbatim>\<open>validCredentials\<close> (email to plain-text password). The handlers are functions of
  these tables and return them with the response, so that what a request leaves behind
  for the next one is explicit.
\<close>

record db =
  users :: "user list"
  credentials :: "(string \<times> string) list"

definition mockUsers :: "user list" where
  "mockUsers =
     [\<lparr>u_id = 1, u_email = ''john@example.com'', u_firstName = ''John'', u_lastName = ''Doe'',
       u_password = ''$2a$10$mockhashedpassword123'', u_createdAt = ''2024-01-15T10:30:00.000Z''\<rparr>,
      \<lparr>u_id = 2, u_email = ''jane@example.com'', u_firstName = ''Jane'', u_lastName = ''Smith'',
       u_password = ''$2a$10$mockhashedpassword456'', u_createdAt = ''2024-01-20T14:45:00.000Z''\<rparr>]"

definition validCredentials :: "(string \<times> string) list" where
  "validCredentials =
     [(''john@example.com'', ''password123''), (''jane@example.com'', ''password456'')]"

definition mockDb :: db where
  "mockDb = \<lparr>users = mockUsers, credentials = validCredentials\<rparr>"

text \<open>
  The clock a handler reads: \<^verbatim>\<open>Date.now()\<close> and \<^verbatim>\<open>new Date().toISOString()\<close>.
\<close>

record clock =
  now :: nat
  isoString :: string

text \<open>\<^verbatim>\<open>HttpResponse.json(body, {status})\<close>; the status is 200 when none is given.\<close>

record response =
  status :: nat
  body :: jsval

definition json :: "jsval \<Rightarrow> nat \<Rightarrow> response" where
  "json b st = \<lparr>status = st, body = b\<rparr>"

definition failure :: "string \<Rightarrow> nat \<Rightarrow> response" where
  "failure msg st = json (JObj [(''success'', JBool False), (''message'', JStr msg)]) st"

definition generateMockToken :: "nat \<Rightarrow> string \<Rightarrow> nat \<Rightarrow> string" where
  "generateMockToken userId email t =
     ''mock-jwt-token-'' @ numToString userId @ ''-'' @ email @ ''-'' @ numToString t"

text \<open>\<^verbatim>\<open>x || null\<close> for an optional string field.\<close>

definition orNull :: "string option \<Rightarrow> jsval" where
  "orNull x = (case x of None \<Rightarrow> JNull | Some s \<Rightarrow> if s = [] then JNull else JStr s)"

text \<open>
  \<^verbatim>\<open>POST */api/auth/login\<close>. The fields of the request body are strings or absent;
  after the first check both are non-empty strings. The comparison
  \<^verbatim>\<open>password !== validCredentials[email]\<close> is with \<open>undefined\<close> when the table has no
  such email (a property the object inherits, such as \<open>constructor\<close>, is no string
  either, and compares unequal as \<open>undefined\<close> does).
\<close>

definition loginHandler :: "db \<Rightarrow> clock \<Rightarrow> string option \<Rightarrow> string option \<Rightarrow> response \<times> db" where
  "loginHandler d clk email password =
     (if falsy email \<or> falsy password
      then (failure ''Email and password are required'' 400, d)
      else
        (case (email, password) of
           (Some e, Some p) \<Rightarrow>
             (case find (\<lambda>u. u_email u = e) (users d) of
                None \<Rightarrow> (failure ''Invalid email or password'' 401, d)
              | Some u \<Rightarrow>
                  if Some p \<noteq> map_of (credentials d) e
                  then (failure ''Invalid email or password'' 401, d)
                  else
                    (json (JObj
                       [(''success'', JBool True),
                        (''message'', JStr ''Login successful''),
                        (''data'', JObj
                           [(''user'', JObj
                               [(''id'', JNum (int (u_id u))),
                                (''email'', JStr (u_email u)),
                                (''firstName'', JStr (u_firstName u)),
                                (''lastName'', JStr (u_lastName u))]),
                            (''token'', JStr (generateMockToken (u_id u) (u_email u) (now clk)))])])
                       200, d))
         | _ \<Rightarrow> (failure ''Email and password are required'' 400, d)))"

text \<open>
  \<^verbatim>\<open>POST */api/auth/signup\<close>. The new user is built and returned; \<^verbatim>\<open>mockUsers\<close> is
  not written.
\<close>

definition signupHandler ::
  "db \<Rightarrow> clock \<Rightarrow> string option \<Rightarrow> string option \<Rightarrow> string option \<Rightarrow> string option
     \<Rightarrow> response \<times> db" where
  "signupHandler d clk email password firstName lastName =
     (if falsy email \<or> falsy password
      then (failure ''Email and password are required'' 400, d)
      else
        (case (email, password) of
           (Some e, Some p) \<Rightarrow>
             if \<not> test emailRegex e
             then (failure ''Invalid email format'' 400, d)
             else if length p < 6
             then (failure ''Password must be at least 6 characters long'' 400, d)
             else
               (case find (\<lambda>u. u_email u = e) (users d) of
                  Some existingUser \<Rightarrow> (failure ''User with this email already exists'' 409, d)
                | None \<Rightarrow>
                    (json (JObj
                       [(''success'', JBool True),
                        (''message'', JStr ''User created successfully''),
                        (''data'', JObj
                           [(''user'', JObj
                               [(''id'', JNum (int (length (users d) + 1))),
                                (''email'', JStr e),
                                (''firstName'', orNull firstName),
                                (''lastName'', orNull lastName),
                                (''createdAt'', JStr (isoString clk))]),
                            (''token'', JStr (generateMockToken (length (users d) + 1) e (now clk)))])])
                       201, d))
         | _ \<Rightarrow> (failure ''Email and password are required'' 400, d)))"

text \<open>
  \<^verbatim>\<open>GET */api/auth/me\<close>, given what \<^verbatim>\<open>request.headers.get('Authorization')\<close> returns.
  \<^verbatim>\<open>tokenParts[3]\<close> exists once the prefix has been checked; were it \<open>undefined\<close>,
  \<^verbatim>\<open>parseInt\<close> would give \<open>NaN\<close>, and \<open>NaN\<close> is the identifier of no user.
\<close>

definition userIdOf :: "string \<Rightarrow> int option" where
  "userIdOf token = (case at (split CHR ''-'' token) 3 of None \<Rightarrow> None | Some part \<Rightarrow> parseInt part)"

definition meHandler :: "db \<Rightarrow> string option \<Rightarrow> response \<times> db" where
  "meHandler d authHeader =
     (case authHeader of
        None \<Rightarrow> (failure ''No token provided'' 401, d)
      | Some h \<Rightarrow>
          if h = [] \<or> \<not> startsWith h ''Bearer ''
          then (failure ''No token provided'' 401, d)
          else
            (case at (split CHR '' '' h) 1 of
               None \<Rightarrow> (failure ''Invalid or expired token'' 401, d)
             | Some token \<Rightarrow>
                 if token = [] \<or> \<not> startsWith token ''mock-jwt-token-''
                 then (failure ''Invalid or expired token'' 401, d)
                 else
                   (case find (\<lambda>u. Some (int (u_id u)) = userIdOf token) (users d) of
                      None \<Rightarrow> (failure ''User not found'' 404, d)
                    | Some u \<Rightarrow>
                        (json (JObj
                           [(''success'', JBool True),
                            (''data'', JObj
                               [(''user'', JObj
                                   [(''id'', JNum (int (u_id u))),
                                    (''email'', JStr (u_email u)),
                                    (''firstName'', JStr (u_firstName u)),
                                    (''lastName'', JStr (u_lastName u)),
                                    (''createdAt'', JStr (u_createdAt u))])])])
                           200, d))))"

section \<open>The client store: \<^verbatim>\<open>AuthContext.jsx\<close>\<close>

text \<open>
  The state of \<^verbatim>\<open>AuthProvider\<close>: the three \<^verbatim>\<open>useState\<close> cells and the item \<open>token\<close> of
  \<^verbatim>\<open>localStorage\<close>.
\<close>

record client =
  user :: jsval
  token :: jsval
  loading :: bool
  localStorage :: "string option"

text \<open>
  The first render: \<^verbatim>\<open>useState(null)\<close>, \<^verbatim>\<open>useState(localStorage.getItem('token'))\<close>,
  \<^verbatim>\<open>useState(true)\<close>.
\<close>

definition initial :: "string option \<Rightarrow> client" where
  "initial stored =
     \<lparr>user = JNull,
      token = (case stored of None \<Rightarrow> JNull | Some t \<Rightarrow> JStr t),
      loading = True,
      localStorage = stored\<rparr>"

text \<open>\<^verbatim>\<open>isAuthenticated: !!user\<close>\<close>

definition isAuthenticated :: "client \<Rightarrow> bool" where
  "isAuthenticated c = truthy (user c)"

text \<open>
  \<^verbatim>\<open>String(v)\<close>, as a template literal and \<^verbatim>\<open>localStorage.setItem\<close> apply it.
\<close>

fun joinWith :: "string \<Rightarrow> string list \<Rightarrow> string" where
  "joinWith sep [] = []"
| "joinWith sep [x] = x"
| "joinWith sep (x # y # ys) = x @ sep @ joinWith sep (y # ys)"

fun toString :: "jsval \<Rightarrow> string" where
  "toString JUndefined = ''undefined''"
| "toString JNull = ''null''"
| "toString (JBool b) = (if b then ''true'' else ''false'')"
| "toString (JNum n) = (if n < 0 then ''-'' @ numToString (nat (- n)) else numToString (nat n))"
| "toString (JStr s) = s"
| "toString (JArr xs) =
     joinWith '','' (map (\<lambda>x. if x = JUndefined \<or> x = JNull then [] else toString x) xs)"
| "toString (JObj fs) = ''[object Object]''"

text \<open>
  What \<^verbatim>\<open>await fetch(...)\<close> followed by \<^verbatim>\<open>await response.json()\<close> gives: the parsed body,
  or a rejection (no transport, or a body that is not JSON).
\<close>

datatype fetched = Rejected | Parsed jsval

definition logout :: "client \<Rightarrow> client" where
  "logout c = c\<lparr>localStorage := None, token := JNull, user := JNull\<rparr>"

text \<open>
  \<^verbatim>\<open>fetchUser\<close>, from the moment the request has been answered. A TypeError raised by
  \<^verbatim>\<open>data.success\<close> or \<^verbatim>\<open>data.data.user\<close> is caught like a rejection.
\<close>

definition fetchUser :: "fetched \<Rightarrow> client \<Rightarrow> client" where
  "fetchUser r c =
     (case r of
        Rejected \<Rightarrow> logout c
      | Parsed data \<Rightarrow>
          (case getprop data ''success'' of
             None \<Rightarrow> logout c
           | Some ok \<Rightarrow>
               if truthy ok
               then (case Option.bind (getprop data ''data'') (\<lambda>d. getprop d ''user'') of
                       None \<Rightarrow> logout c
                     | Some u \<Rightarrow> c\<lparr>user := u\<rparr>)
               else logout c))
     \<lparr>loading := False\<rparr>"

text \<open>The header \<^verbatim>\<open>fetchUser\<close> sends: \<^verbatim>\<open>`Bearer ${token}`\<close>.\<close>

definition authorization :: "client \<Rightarrow> string" where
  "authorization c = ''Bearer '' @ toString (token c)"

text \<open>The effect on \<^verbatim>\<open>[token]\<close>, with the answer \<^verbatim>\<open>fetchUser\<close> gets when it is called.\<close>

definition tokenEffect :: "fetched \<Rightarrow> client \<Rightarrow> client" where
  "tokenEffect r c = (if truthy (token c) then fetchUser r c else c\<lparr>loading := False\<rparr>)"

text \<open>
  \<^verbatim>\<open>signup\<close> and \<^verbatim>\<open>login\<close> treat the answer alike (they differ in the request they
  send): the new state and the value returned to the caller. \<^verbatim>\<open>data.data.token\<close> is
  read first, so a TypeError there leaves the state as it was.
\<close>

definition networkError :: jsval where
  "networkError =
     JObj [(''success'', JBool False), (''message'', JStr ''Network error. Please try again.'')]"

definition authenticated :: "fetched \<Rightarrow> client \<Rightarrow> client \<times> jsval" where
  "authenticated r c =
     (case r of
        Rejected \<Rightarrow> (c, networkError)
      | Parsed data \<Rightarrow>
          (case getprop data ''success'' of
             None \<Rightarrow> (c, networkError)
           | Some ok \<Rightarrow>
               if truthy ok
               then (case getprop data ''data'' of
                       None \<Rightarrow> (c, networkError)
                     | Some d \<Rightarrow>
                         (case (getprop d ''token'', getprop d ''user'') of
                            (Some t, Some u) \<Rightarrow>
                              (c\<lparr>localStorage := Some (toString t), token := t, user := u\<rparr>,
                               JObj [(''success'', JBool True)])
                          | _ \<Rightarrow> (c, networkError)))
               else
                 (c, JObj [(''success'', JBool False),
                           (''message'', (case getprop data ''message'' of
                                          None \<Rightarrow> JUndefined | Some m \<Rightarrow> m))])))"

definition signup :: "fetched \<Rightarrow> client \<Rightarrow> client \<times> jsval" where
  "signup r c = authenticated r c"

definition login :: "fetched \<Rightarrow> client \<Rightarrow> client \<times> jsval" where
  "login r c = authenticated r c"

section \<open>The client against the mock service\<close>

text \<open>
  The integration tests run the provider against the handlers. The two together are a
  state machine: the tables of the service and the store of the client. An event is one
  operation of the client taken to its end; its flag says whether the request is
  answered (when the token is not truthy the effect sends none). The code after the
  last \<^verbatim>\<open>await\<close> of an operation runs without interruption, but operations may
  overlap: \<open>Resolved\<close> is the end of a \<^verbatim>\<open>fetchUser\<close> that was called earlier, with the
  header it sent then, whatever the store holds by now.
\<close>

record world =
  service :: db
  app :: client

datatype event =
    Effect bool
  | Resolved bool string
  | Signup bool clock "string option" "string option" "string option" "string option"
  | Login bool clock "string option" "string option"
  | Logout

fun step :: "world \<Rightarrow> event \<Rightarrow> world" where
  "step w (Effect online) =
     (if online \<and> truthy (token (app w))
      then (let (r, d) = meHandler (service w) (Some (authorization (app w)))
            in \<lparr>service = d, app = tokenEffect (Parsed (body r)) (app w)\<rparr>)
      else w\<lparr>app := tokenEffect Rejected (app w)\<rparr>)"
| "step w (Resolved online header) =
     (if online
      then (let (r, d) = meHandler (service w) (Some header)
            in \<lparr>service = d, app = fetchUser (Parsed (body r)) (app w)\<rparr>)
      else w\<lparr>app := fetchUser Rejected (app w)\<rparr>)"
| "step w (Signup online clk email password firstName lastName) =
     (if online
      then (let (r, d) = signupHandler (service w) clk email password firstName lastName
            in \<lparr>service = d, app = fst (signup (Parsed (body r)) (app w))\<rparr>)
      else w\<lparr>app := fst (signup Rejected (app w))\<rparr>)"
| "step w (Login online clk email password) =
     (if online
      then (let (r, d) = loginHandler (service w) clk email password
            in \<lparr>service = d, app = fst (login (Parsed (body r)) (app w))\<rparr>)
      else w\<lparr>app := fst (login Rejected (app w))\<rparr>)"
| "step w Logout = w\<lparr>app := logout (app w)\<rparr>"

definition boot :: "db \<Rightarrow> string option \<Rightarrow> world" where
  "boot d stored = \<lparr>service = d, app = initial stored\<rparr>"

definition run :: "world \<Rightarrow> event list \<Rightarrow> world" where
  "run w evs = foldl step w evs"


text \<open>
  A user record is held when the \<open>user\<close> cell is an object. \<open>userState\<close> is what the
  cell can be at all: \<open>null\<close> or a held record.
\<close>

definition userHeld :: "client \<Rightarrow> bool" where
  "userHeld c = (case user c of JObj fs \<Rightarrow> True | _ \<Rightarrow> False)"

definition userState :: "client \<Rightarrow> bool" where
  "userState c = (user c = JNull \<or> userHeld c)"

section \<open>Reading a response\<close>

text \<open>
  \<^verbatim>\<open>data.success\<close>, \<^verbatim>\<open>data.message\<close>, \<^verbatim>\<open>data.data.user\<close> and \<^verbatim>\<open>data.data.token\<close> of a
  response, as the client reads them, and the property names of an object.
\<close>

definition succeeded :: "response \<Rightarrow> bool" where
  "succeeded r = (case getprop (body r) ''success'' of None \<Rightarrow> False | Some v \<Rightarrow> truthy v)"

definition messageOf :: "response \<Rightarrow> jsval option" where
  "messageOf r = getprop (body r) ''message''"

definition userOf :: "response \<Rightarrow> jsval option" where
  "userOf r = Option.bind (getprop (body r) ''data'') (\<lambda>d. getprop d ''user'')"

definition tokenOf :: "response \<Rightarrow> jsval option" where
  "tokenOf r = Option.bind (getprop (body r) ''data'') (\<lambda>d. getprop d ''token'')"

definition properties :: "jsval \<Rightarrow> string list" where
  "properties v = (case v of JObj fs \<Rightarrow> map fst fs | _ \<Rightarrow> [])"

section \<open>Looking a user up\<close>

lemma find_email_None: "(find (\<lambda>u. u_email u = e) us = None) = (e \<notin> u_email ` set us)"
  by (auto simp: find_None_iff)

lemma find_email_Some:
  "e \<in> u_email ` set us \<Longrightarrow>
     \<exists>u. find (\<lambda>u. u_email u = e) us = Some u \<and> u_email u = e \<and> u \<in> set us"
  by (cases "find (\<lambda>u. u_email u = e) us") (auto simp: find_None_iff find_Some_iff)

section \<open>The matcher decides the language\<close>

lemma nullable_lang: "nullable r = ([] \<in> lang r)"
  by (induction r) (auto intro: repeated.none)

lemma repeated_cons:
  assumes "x \<in> repeated A" and "x = c # w"
  shows "\<exists>u v. w = u @ v \<and> c # u \<in> A \<and> v \<in> repeated A"
  using assms
proof (induction arbitrary: w rule: repeated.induct)
  case none
  then show ?case by simp
next
  case (more u v)
  show ?case
  proof (cases u)
    case Nil
    with more show ?thesis by simp
  next
    case (Cons a u')
    with more.prems have "a = c" and "w = u' @ v" by simp_all
    with more.hyps Cons show ?thesis by blast
  qed
qed

lemma in_lang_Then: "(w \<in> lang (Then r s)) = (\<exists>u v. w = u @ v \<and> u \<in> lang r \<and> v \<in> lang s)"
  by auto

lemma lang_deriv_Then:
  assumes r: "lang (deriv c r) = {w. c # w \<in> lang r}"
    and s: "lang (deriv c s) = {w. c # w \<in> lang s}"
  shows "(w \<in> lang (deriv c (Then r s))) = (c # w \<in> lang (Then r s))"
proof
  assume "w \<in> lang (deriv c (Then r s))"
  then consider u v where "w = u @ v" "c # u \<in> lang r" "v \<in> lang s"
    | "nullable r" "c # w \<in> lang s"
    using r s by (auto split: if_splits)
  then show "c # w \<in> lang (Then r s)"
  proof cases
    case 1
    then have "(c # u) @ v \<in> lang (Then r s)"
      unfolding in_lang_Then by blast
    with 1 show ?thesis by simp
  next
    case 2
    then have "[] \<in> lang r" by (simp add: nullable_lang)
    with 2 have "[] @ (c # w) \<in> lang (Then r s)"
      unfolding in_lang_Then by blast
    then show ?thesis by simp
  qed
next
  assume "c # w \<in> lang (Then r s)"
  then obtain u v where uv: "c # w = u @ v" "u \<in> lang r" "v \<in> lang s"
    unfolding in_lang_Then by blast
  show "w \<in> lang (deriv c (Then r s))"
  proof (cases u)
    case Nil
    with uv have "nullable r" "w \<in> lang (deriv c s)" by (simp_all add: nullable_lang s)
    then show ?thesis by simp
  next
    case (Cons a u')
    with uv have "a = c" and w: "w = u' @ v" by simp_all
    with uv Cons have "c # u' \<in> lang r" by simp
    then have "u' \<in> lang (deriv c r)" by (simp add: r)
    with w uv have "w \<in> lang (Then (deriv c r) s)"
      unfolding in_lang_Then by blast
    then show ?thesis by simp
  qed
qed

lemma lang_deriv_Many:
  assumes r: "lang (deriv c r) = {w. c # w \<in> lang r}"
  shows "(w \<in> lang (deriv c (Many r))) = (c # w \<in> lang (Many r))"
proof
  assume "w \<in> lang (deriv c (Many r))"
  then have "w \<in> lang (Then (deriv c r) (Many r))" by simp
  then obtain u v where uv: "w = u @ v" "u \<in> lang (deriv c r)" "v \<in> lang (Many r)"
    unfolding in_lang_Then by blast
  then have "c # u \<in> lang r" "v \<in> repeated (lang r)" by (simp_all add: r)
  then have "(c # u) @ v \<in> repeated (lang r)" by (rule repeated.more)
  with uv show "c # w \<in> lang (Many r)" by simp
next
  assume "c # w \<in> lang (Many r)"
  then have "c # w \<in> repeated (lang r)" by simp
  from repeated_cons [OF this refl]
  obtain u v where "w = u @ v" "c # u \<in> lang r" "v \<in> repeated (lang r)" by blast
  then have "w = u @ v" "u \<in> lang (deriv c r)" "v \<in> lang (Many r)" by (simp_all add: r)
  then have "w \<in> lang (Then (deriv c r) (Many r))"
    unfolding in_lang_Then by blast
  then show "w \<in> lang (deriv c (Many r))" by simp
qed

lemma lang_deriv: "lang (deriv c r) = {w. c # w \<in> lang r}"
proof (induction r)
  case (Then r s)
  then show ?case using lang_deriv_Then [of c r s] by blast
next
  case (Many r)
  then show ?case using lang_deriv_Many [of c r] by blast
qed auto

lemma test_lang: "test r s = (s \<in> lang r)"
  by (induction s arbitrary: r) (simp_all add: nullable_lang lang_deriv)

lemma repeated_class: "repeated {[c] | c. P c} = {w. \<forall>x\<in>set w. P x}"
proof (intro set_eqI iffI)
  fix w assume "w \<in> repeated {[c] | c. P c}"
  then show "w \<in> {w. \<forall>x\<in>set w. P x}"
    by (induction rule: repeated.induct) auto
next
  fix w assume "w \<in> {w. \<forall>x\<in>set w. P x}"
  then have "\<forall>x\<in>set w. P x" by simp
  then show "w \<in> repeated {[c] | c. P c}"
  proof (induction w)
    case Nil
    show ?case by (rule repeated.none)
  next
    case (Cons a w)
    then have "[a] \<in> {[c] | c. P c}" "w \<in> repeated {[c] | c. P c}" by auto
    then have "[a] @ w \<in> repeated {[c] | c. P c}" by (rule repeated.more)
    then show ?case by simp
  qed
qed

lemma in_lang_Many1_Class:
  "(w \<in> lang (Many1 (Class P))) = (w \<noteq> [] \<and> (\<forall>x\<in>set w. P x))"
proof
  assume "w \<in> lang (Many1 (Class P))"
  then obtain u v where "w = u @ v" "u \<in> lang (Class P)" "v \<in> repeated {[c] | c. P c}"
    by (auto simp: Many1_def)
  then show "w \<noteq> [] \<and> (\<forall>x\<in>set w. P x)"
    by (auto simp: repeated_class)
next
  assume a: "w \<noteq> [] \<and> (\<forall>x\<in>set w. P x)"
  then obtain c v where w: "w = c # v" by (cases w) auto
  with a have "[c] \<in> lang (Class P)" "v \<in> lang (Many (Class P))"
    by (auto simp: repeated_class)
  then have "[c] @ v \<in> lang (Then (Class P) (Many (Class P)))"
    unfolding in_lang_Then by blast
  with w show "w \<in> lang (Many1 (Class P))" by (simp add: Many1_def)
qed

lemma in_lang_Class_eq: "(w \<in> lang (Class (\<lambda>c. c = k))) = (w = [k])"
  by auto

lemma emailRegex_shape:
  "test emailRegex e =
     (\<exists>a b c. e = a @ ''@'' @ b @ ''.'' @ c \<and> a \<noteq> [] \<and> b \<noteq> [] \<and> c \<noteq> []
        \<and> (\<forall>x\<in>set (a @ b @ c). notSpaceOrAt x))"
proof
  assume "test emailRegex e"
  then have "e \<in> lang emailRegex" by (simp add: test_lang)
  then obtain a r1 where 1: "e = a @ r1" "a \<in> lang (Many1 (Class notSpaceOrAt))"
      and "r1 \<in> lang (Then (Class (\<lambda>c. c = CHR ''@''))
             (Then (Many1 (Class notSpaceOrAt))
               (Then (Class (\<lambda>c. c = CHR ''.'')) (Many1 (Class notSpaceOrAt)))))"
    unfolding emailRegex_def in_lang_Then [of e] by blast
  then obtain r2 where 2: "r1 = ''@'' @ r2"
      and "r2 \<in> lang (Then (Many1 (Class notSpaceOrAt))
               (Then (Class (\<lambda>c. c = CHR ''.'')) (Many1 (Class notSpaceOrAt))))"
    unfolding in_lang_Then [of r1] in_lang_Class_eq by blast
  then obtain b r3 where 3: "r2 = b @ r3" "b \<in> lang (Many1 (Class notSpaceOrAt))"
      and "r3 \<in> lang (Then (Class (\<lambda>c. c = CHR ''.'')) (Many1 (Class notSpaceOrAt)))"
    unfolding in_lang_Then [of r2] by blast
  then obtain c where 4: "r3 = ''.'' @ c" "c \<in> lang (Many1 (Class notSpaceOrAt))"
    unfolding in_lang_Then [of r3] in_lang_Class_eq by blast
  from 1 2 3 4 have "e = a @ ''@'' @ b @ ''.'' @ c" by simp
  moreover from 1 3 4 have "a \<noteq> [] \<and> b \<noteq> [] \<and> c \<noteq> [] \<and> (\<forall>x\<in>set (a @ b @ c). notSpaceOrAt x)"
    unfolding in_lang_Many1_Class by auto
  ultimately show "\<exists>a b c. e = a @ ''@'' @ b @ ''.'' @ c \<and> a \<noteq> [] \<and> b \<noteq> [] \<and> c \<noteq> []
        \<and> (\<forall>x\<in>set (a @ b @ c). notSpaceOrAt x)" by blast
next
  assume "\<exists>a b c. e = a @ ''@'' @ b @ ''.'' @ c \<and> a \<noteq> [] \<and> b \<noteq> [] \<and> c \<noteq> []
        \<and> (\<forall>x\<in>set (a @ b @ c). notSpaceOrAt x)"
  then obtain a b c where e: "e = a @ ''@'' @ b @ ''.'' @ c"
      and ne: "a \<noteq> []" "b \<noteq> []" "c \<noteq> []"
      and ok: "\<forall>x\<in>set a. notSpaceOrAt x" "\<forall>x\<in>set b. notSpaceOrAt x" "\<forall>x\<in>set c. notSpaceOrAt x"
    by auto
  from ne ok have m: "a \<in> lang (Many1 (Class notSpaceOrAt))" "b \<in> lang (Many1 (Class notSpaceOrAt))"
      "c \<in> lang (Many1 (Class notSpaceOrAt))"
    unfolding in_lang_Many1_Class by simp_all
  have "''.'' @ c \<in> lang (Then (Class (\<lambda>c. c = CHR ''.'')) (Many1 (Class notSpaceOrAt)))"
    unfolding in_lang_Then in_lang_Class_eq using m(3) by blast
  then have "b @ ''.'' @ c \<in> lang (Then (Many1 (Class notSpaceOrAt))
               (Then (Class (\<lambda>c. c = CHR ''.'')) (Many1 (Class notSpaceOrAt))))"
    unfolding in_lang_Then [of "b @ ''.'' @ c"] using m(2) by blast
  then have "''@'' @ b @ ''.'' @ c \<in> lang (Then (Class (\<lambda>c. c = CHR ''@''))
             (Then (Many1 (Class notSpaceOrAt))
               (Then (Class (\<lambda>c. c = CHR ''.'')) (Many1 (Class notSpaceOrAt)))))"
    unfolding in_lang_Then [of "''@'' @ b @ ''.'' @ c"] in_lang_Class_eq by blast
  then have "a @ ''@'' @ b @ ''.'' @ c \<in> lang emailRegex"
    unfolding emailRegex_def in_lang_Then [of "a @ ''@'' @ b @ ''.'' @ c"] using m(1) by blast
  with e show "test emailRegex e" by (simp add: test_lang)
qed

section \<open>Splitting strings\<close>

lemma startsWith_append [simp]: "startsWith (p @ r) p"
  by (induction p) simp_all

lemma startsWith_iff: "startsWith s p = (\<exists>r. s = p @ r)"
  by (induction s p rule: startsWith.induct) auto

lemma split_not_Nil [simp]: "split c s \<noteq> []"
  by (induction s) (auto split: list.splits)

lemma split_append_sep: "c \<notin> set a \<Longrightarrow> split c (a @ c # r) = a # split c r"
  by (induction a) (auto split: list.splits)

lemma hd_split: "hd (split c s) = takeWhile (\<lambda>x. x \<noteq> c) s"
  by (induction s) (auto split: list.splits)

lemma at_Suc_Cons [simp]: "at (x # xs) (Suc i) = at xs i"
  by (simp add: at_def)

lemma at_0_split: "at (split c s) 0 = Some (takeWhile (\<lambda>x. x \<noteq> c) s)"
  using hd_split [of c s] split_not_Nil [of c s]
  by (cases "split c s") (simp_all add: at_def)

lemma bearer_token:
  "at (split CHR '' '' (''Bearer '' @ t)) 1 = Some (takeWhile (\<lambda>x. x \<noteq> CHR '' '') t)"
proof -
  have "split CHR '' '' (''Bearer'' @ CHR '' '' # t) = ''Bearer'' # split CHR '' '' t"
    by (rule split_append_sep) simp
  then show ?thesis
    using at_0_split [of "CHR '' ''" t] by simp
qed

lemma bearer_has_token:
  assumes "startsWith h ''Bearer ''"
  shows "\<exists>t. at (split CHR '' '' h) 1 = Some t"
proof -
  from assms obtain r where "h = ''Bearer '' @ r"
    unfolding startsWith_iff by blast
  then show ?thesis using bearer_token [of r] by blast
qed

section \<open>Login\<close>

text \<open>
  C3 (enumeration resistance). A login request with a non-empty email and a non-empty
  password whose email is unknown to the store, or whose password is not the one
  recorded for the email, gets one and the same response, whatever the cause: status
  401 with the message \<open>Invalid email or password\<close>, and the store is left as it was.
\<close>

theorem login_failures_identical:
  assumes "e \<noteq> []" and "p \<noteq> []"
    and "e \<notin> u_email ` set (users d) \<or> map_of (credentials d) e \<noteq> Some p"
  shows "loginHandler d clk (Some e) (Some p) =
           (\<lparr>status = 401,
             body = JObj [(''success'', JBool False),
                          (''message'', JStr ''Invalid email or password'')]\<rparr>, d)"
proof (cases "find (\<lambda>u. u_email u = e) (users d)")
  case None
  with assms show ?thesis
    by (simp add: loginHandler_def failure_def json_def)
next
  case (Some u)
  then have "e \<in> u_email ` set (users d)"
    using find_email_None [of e "users d"] by simp
  with assms Some show ?thesis
    by (auto simp: loginHandler_def failure_def json_def)
qed

theorem login_failures_identical_witness:
  "''john@example.com'' \<noteq> [] \<and> ''wrong'' \<noteq> [] \<and>
   map_of (credentials mockDb) ''john@example.com'' \<noteq> Some ''wrong'' \<and>
   ''nobody@example.com'' \<notin> u_email ` set (users mockDb) \<and>
   loginHandler mockDb \<lparr>now = 0, isoString = []\<rparr> (Some ''john@example.com'') (Some ''wrong'') =
     loginHandler mockDb \<lparr>now = 0, isoString = []\<rparr> (Some ''nobody@example.com'') (Some ''password123'')"
proof -
  have a: "map_of (credentials mockDb) ''john@example.com'' \<noteq> Some ''wrong''"
    by (simp add: mockDb_def validCredentials_def)
  have b: "''nobody@example.com'' \<notin> u_email ` set (users mockDb)"
    by (simp add: mockDb_def mockUsers_def)
  show ?thesis
    using login_failures_identical
            [of "''john@example.com''" "''wrong''" mockDb "\<lparr>now = 0, isoString = []\<rparr>"]
      login_failures_identical
            [of "''nobody@example.com''" "''password123''" mockDb "\<lparr>now = 0, isoString = []\<rparr>"]
      a b
    by simp
qed

text \<open>
  C5 (login checks presence, never length). A login request with a non-empty email and a
  non-empty password of any length is never answered with status 400, nor with the
  message of the password-length check; with a known email and a wrong password shorter
  than six characters the answer is the 401 of a failed login, and with the recorded
  password, of whatever length, it is 200.
\<close>

theorem login_never_checks_length:
  assumes "e \<noteq> []" and "p \<noteq> []"
  shows "status (fst (loginHandler d clk (Some e) (Some p))) \<noteq> 400
       \<and> messageOf (fst (loginHandler d clk (Some e) (Some p)))
           \<noteq> Some (JStr ''Password must be at least 6 characters long'')
       \<and> (e \<in> u_email ` set (users d) \<and> length p < 6 \<and> map_of (credentials d) e \<noteq> Some p \<longrightarrow>
           fst (loginHandler d clk (Some e) (Some p)) = failure ''Invalid email or password'' 401)
       \<and> (e \<in> u_email ` set (users d) \<and> map_of (credentials d) e = Some p \<longrightarrow>
           status (fst (loginHandler d clk (Some e) (Some p))) = 200)"
proof (cases "find (\<lambda>u. u_email u = e) (users d)")
  case None
  then have "e \<notin> u_email ` set (users d)"
    using find_email_None [of e "users d"] by simp
  with None show ?thesis
    using assms by (simp add: loginHandler_def failure_def json_def messageOf_def)
next
  case (Some u)
  then show ?thesis
    using assms by (simp add: loginHandler_def failure_def json_def messageOf_def)
qed

theorem login_never_checks_length_witness:
  "''john@example.com'' \<noteq> [] \<and> ''pw'' \<noteq> [] \<and>
   ''john@example.com'' \<in> u_email ` set (users mockDb) \<and> length ''pw'' < 6 \<and>
   map_of (credentials mockDb) ''john@example.com'' \<noteq> Some ''pw'' \<and>
   fst (loginHandler mockDb \<lparr>now = 0, isoString = []\<rparr> (Some ''john@example.com'') (Some ''pw''))
     = failure ''Invalid email or password'' 401"
  using login_never_checks_length
          [of "''john@example.com''" "''pw''" mockDb "\<lparr>now = 0, isoString = []\<rparr>"]
  by (simp add: mockDb_def mockUsers_def validCredentials_def)

section \<open>Signup\<close>

lemma test_samples:
  "\<not> test emailRegex ''invalidemail''"
  "test emailRegex ''test@example.com''"
  "test emailRegex ''john@example.com''"
  "test emailRegex ''new@x.com''"
  by (simp_all add: emailRegex_def Many1_def notSpaceOrAt_def isWhiteSpace_def)

text \<open>
  The checks of a signup request are applied in a fixed order and the first that fails
  decides the response: a missing or empty email or password gives 400 \<open>Email and
  password are required\<close> before anything else is looked at; then an email that the
  pattern rejects gives 400 \<open>Invalid email format\<close>; then a password shorter than six
  gives 400 \<open>Password must be at least 6 characters long\<close>; then an email already in
  the store gives 409; otherwise the answer is 201 and carries the new user. In every
  case the store is returned as it was. The pattern accepts exactly the strings made of
  a non-empty run of characters that are neither white space nor \<open>@\<close>, an \<open>@\<close>, a second
  such run, a dot, and a third such run.
\<close>

lemma signup_checks_in_order:
  "(falsy email \<or> falsy password \<longrightarrow>
      signupHandler d clk email password firstName lastName =
        (failure ''Email and password are required'' 400, d))
   \<and> (e \<noteq> [] \<and> p \<noteq> [] \<longrightarrow>
      signupHandler d clk (Some e) (Some p) firstName lastName =
        (if \<not> test emailRegex e then (failure ''Invalid email format'' 400, d)
         else if length p < 6
           then (failure ''Password must be at least 6 characters long'' 400, d)
         else if e \<in> u_email ` set (users d)
           then (failure ''User with this email already exists'' 409, d)
         else
           (\<lparr>status = 201,
             body = JObj
               [(''success'', JBool True),
                (''message'', JStr ''User created successfully''),
                (''data'', JObj
                   [(''user'', JObj
                       [(''id'', JNum (int (length (users d) + 1))),
                        (''email'', JStr e),
                        (''firstName'', orNull firstName),
                        (''lastName'', orNull lastName),
                        (''createdAt'', JStr (isoString clk))]),
                    (''token'', JStr (generateMockToken (length (users d) + 1) e (now clk)))])]\<rparr>,
            d)))
   \<and> (test emailRegex e =
        (\<exists>a b c. e = a @ ''@'' @ b @ ''.'' @ c \<and> a \<noteq> [] \<and> b \<noteq> [] \<and> c \<noteq> []
           \<and> (\<forall>x\<in>set (a @ b @ c). \<not> isWhiteSpace x \<and> x \<noteq> CHR ''@'')))"
  (is "(?missing \<longrightarrow> ?required) \<and> (?present \<longrightarrow> ?checked) \<and> ?shape")
proof (intro conjI impI)
  assume ?missing
  then show ?required
    by (auto simp: signupHandler_def)
next
  assume ep: ?present
  show ?checked
  proof (cases "find (\<lambda>u. u_email u = e) (users d)")
    case None
    then have "e \<notin> u_email ` set (users d)"
      using find_email_None [of e "users d"] by simp
    with None ep show ?thesis
      by (simp add: signupHandler_def json_def)
  next
    case (Some u)
    then have "e \<in> u_email ` set (users d)"
      using find_email_None [of e "users d"] by simp
    with Some ep show ?thesis
      by (simp add: signupHandler_def)
  qed
next
  show ?shape
    using emailRegex_shape [of e] by (simp add: notSpaceOrAt_def)
qed

lemma signup_checks_in_order_examples:
  "falsy None
   \<and> signupHandler mockDb \<lparr>now = 17, isoString = ''T''\<rparr> None (Some ''password123'') None None =
       (failure ''Email and password are required'' 400, mockDb)
   \<and> signupHandler mockDb \<lparr>now = 17, isoString = ''T''\<rparr> (Some ''invalidemail'') (Some ''password123'') None None =
       (failure ''Invalid email format'' 400, mockDb)
   \<and> signupHandler mockDb \<lparr>now = 17, isoString = ''T''\<rparr> (Some ''test@example.com'') (Some ''12345'') None None =
       (failure ''Password must be at least 6 characters long'' 400, mockDb)
   \<and> signupHandler mockDb \<lparr>now = 17, isoString = ''T''\<rparr> (Some ''john@example.com'') (Some ''password123'') None None =
       (failure ''User with this email already exists'' 409, mockDb)
   \<and> status (fst (signupHandler mockDb \<lparr>now = 17, isoString = ''T''\<rparr> (Some ''new@x.com'') (Some ''password123'') None None)) = 201"
  using signup_checks_in_order [of None "Some ''password123''" mockDb "\<lparr>now = 17, isoString = ''T''\<rparr>" None None "''invalidemail''" "''password123''"]
    signup_checks_in_order [of None None mockDb "\<lparr>now = 17, isoString = ''T''\<rparr>" None None "''test@example.com''" "''12345''"]
    signup_checks_in_order [of None None mockDb "\<lparr>now = 17, isoString = ''T''\<rparr>" None None "''john@example.com''" "''password123''"]
    signup_checks_in_order [of None None mockDb "\<lparr>now = 17, isoString = ''T''\<rparr>" None None "''new@x.com''" "''password123''"]
    test_samples
  by (simp add: mockDb_def mockUsers_def)

section \<open>What the handlers answer\<close>

lemma succeeded_failure [simp]: "\<not> succeeded (failure m st)"
  by (simp add: succeeded_def failure_def json_def)

lemma succeeded_json [simp]: "succeeded (json (JObj ((''success'', JBool True) # fs)) st)"
  by (simp add: succeeded_def json_def)

lemma userOf_json [simp]:
  "userOf (json (JObj [(''success'', s), (''message'', m), (''data'', JObj ((''user'', u) # fs))]) st) = Some u"
  "userOf (json (JObj [(''success'', s), (''data'', JObj ((''user'', u) # fs))]) st) = Some u"
  by (simp_all add: userOf_def json_def)

lemma loginHandler_result:
  "(\<exists>m st. fst (loginHandler d clk email password) = failure m st)
   \<or> (\<exists>e p u. email = Some e \<and> password = Some p \<and> e \<noteq> [] \<and> p \<noteq> []
        \<and> find (\<lambda>u. u_email u = e) (users d) = Some u \<and> map_of (credentials d) e = Some p
        \<and> fst (loginHandler d clk email password) =
           json (JObj
             [(''success'', JBool True),
              (''message'', JStr ''Login successful''),
              (''data'', JObj
                 [(''user'', JObj
                     [(''id'', JNum (int (u_id u))),
                      (''email'', JStr (u_email u)),
                      (''firstName'', JStr (u_firstName u)),
                      (''lastName'', JStr (u_lastName u))]),
                  (''token'', JStr (generateMockToken (u_id u) (u_email u) (now clk)))])]) 200)"
proof (cases email)
  case None
  then show ?thesis by (auto simp: loginHandler_def)
next
  case e: (Some e)
  show ?thesis
  proof (cases password)
    case None
    then show ?thesis by (auto simp: loginHandler_def)
  next
    case p: (Some p)
    show ?thesis
    proof (cases "find (\<lambda>u. u_email u = e) (users d)")
      case None
      with e p show ?thesis by (auto simp: loginHandler_def)
    next
      case (Some u)
      with e p show ?thesis by (auto simp: loginHandler_def)
    qed
  qed
qed

lemma signupHandler_result:
  "(\<exists>m st. fst (signupHandler d clk email password firstName lastName) = failure m st)
   \<or> (\<exists>e p. email = Some e \<and> password = Some p \<and> e \<noteq> [] \<and> p \<noteq> []
        \<and> test emailRegex e \<and> 6 \<le> length p
        \<and> find (\<lambda>u. u_email u = e) (users d) = None
        \<and> fst (signupHandler d clk email password firstName lastName) =
           json (JObj
             [(''success'', JBool True),
              (''message'', JStr ''User created successfully''),
              (''data'', JObj
                 [(''user'', JObj
                     [(''id'', JNum (int (length (users d) + 1))),
                      (''email'', JStr e),
                      (''firstName'', orNull firstName),
                      (''lastName'', orNull lastName),
                      (''createdAt'', JStr (isoString clk))]),
                  (''token'', JStr (generateMockToken (length (users d) + 1) e (now clk)))])]) 201)"
proof (cases email)
  case None
  then show ?thesis by (auto simp: signupHandler_def)
next
  case e: (Some e)
  show ?thesis
  proof (cases password)
    case None
    then show ?thesis by (auto simp: signupHandler_def)
  next
    case p: (Some p)
    show ?thesis
    proof (cases "find (\<lambda>u. u_email u = e) (users d)")
      case None
      with e p show ?thesis by (auto simp: signupHandler_def)
    next
      case (Some u)
      with e p show ?thesis by (auto simp: signupHandler_def)
    qed
  qed
qed

lemma meHandler_result:
  "(\<exists>m st. fst (meHandler d authHeader) = failure m st)
   \<or> (\<exists>h t u. authHeader = Some h \<and> startsWith h ''Bearer '' \<and> at (split CHR '' '' h) 1 = Some t
        \<and> startsWith t ''mock-jwt-token-''
        \<and> find (\<lambda>u. Some (int (u_id u)) = userIdOf t) (users d) = Some u
        \<and> fst (meHandler d authHeader) =
           json (JObj
             [(''success'', JBool True),
              (''data'', JObj
                 [(''user'', JObj
                     [(''id'', JNum (int (u_id u))),
                      (''email'', JStr (u_email u)),
                      (''firstName'', JStr (u_firstName u)),
                      (''lastName'', JStr (u_lastName u)),
                      (''createdAt'', JStr (u_createdAt u))])])]) 200)"
proof (cases authHeader)
  case None
  then show ?thesis by (auto simp: meHandler_def)
next
  case h: (Some h)
  show ?thesis
  proof (cases "at (split CHR '' '' h) 1")
    case None
    with h show ?thesis by (auto simp: meHandler_def)
  next
    case t: (Some t)
    show ?thesis
    proof (cases "find (\<lambda>u. Some (int (u_id u)) = userIdOf t) (users d)")
      case None
      with h t show ?thesis by (auto simp: meHandler_def)
    next
      case (Some u)
      with h t show ?thesis by (auto simp: meHandler_def)
    qed
  qed
qed

lemma sample_login:
  "fst (loginHandler mockDb \<lparr>now = 17, isoString = ''T''\<rparr> (Some ''john@example.com'') (Some ''password123'')) =
     json (JObj
       [(''success'', JBool True),
        (''message'', JStr ''Login successful''),
        (''data'', JObj
           [(''user'', JObj
               [(''id'', JNum 1), (''email'', JStr ''john@example.com''),
                (''firstName'', JStr ''John''), (''lastName'', JStr ''Doe'')]),
            (''token'', JStr (generateMockToken 1 ''john@example.com'' 17))])]) 200"
  by (simp add: loginHandler_def mockDb_def mockUsers_def validCredentials_def)

lemma sample_signup:
  "fst (signupHandler mockDb \<lparr>now = 17, isoString = ''T''\<rparr> (Some ''new@x.com'') (Some ''password123'') None None) =
     json (JObj
       [(''success'', JBool True),
        (''message'', JStr ''User created successfully''),
        (''data'', JObj
           [(''user'', JObj
               [(''id'', JNum 3), (''email'', JStr ''new@x.com''),
                (''firstName'', JNull), (''lastName'', JNull), (''createdAt'', JStr ''T'')]),
            (''token'', JStr (generateMockToken 3 ''new@x.com'' 17))])]) 201"
  by (simp add: signupHandler_def mockDb_def mockUsers_def test_samples orNull_def numeral_3_eq_3
        del: test.simps)

lemma userIdOf_sample: "userIdOf ''mock-jwt-token-1'' = Some 1"
  by (simp add: userIdOf_def at_def parseInt_def isWhiteSpace_def parseUnsigned_def
        parseDigits_def isDigitOf_def digitValue_def digitsValue_def)

lemma sample_me:
  "fst (meHandler mockDb (Some ''Bearer mock-jwt-token-1'')) =
     json (JObj
       [(''success'', JBool True),
        (''data'', JObj
           [(''user'', JObj
               [(''id'', JNum 1), (''email'', JStr ''john@example.com''),
                (''firstName'', JStr ''John''), (''lastName'', JStr ''Doe''),
                (''createdAt'', JStr ''2024-01-15T10:30:00.000Z'')])])]) 200"
  by (simp add: meHandler_def at_def userIdOf_sample mockDb_def mockUsers_def)

section \<open>User objects in responses\<close>

text \<open>
  C7 (no credential leakage). In every successful response of login, signup and the
  current-user lookup, the user object of the body has exactly the properties \<open>id\<close>,
  \<open>email\<close>, \<open>firstName\<close>, \<open>lastName\<close> (and \<open>createdAt\<close> for signup and the lookup): it has
  no \<open>password\<close> property and none that holds a password hash.
\<close>

theorem user_objects_carry_no_password:
  "(succeeded (fst (loginHandler d clk email password)) \<longrightarrow>
      (\<exists>u. userOf (fst (loginHandler d clk email password)) = Some u
         \<and> properties u = [''id'', ''email'', ''firstName'', ''lastName'']))
   \<and> (succeeded (fst (signupHandler d clk email' password' firstName lastName)) \<longrightarrow>
      (\<exists>u. userOf (fst (signupHandler d clk email' password' firstName lastName)) = Some u
         \<and> properties u = [''id'', ''email'', ''firstName'', ''lastName'', ''createdAt'']))
   \<and> (succeeded (fst (meHandler d authHeader)) \<longrightarrow>
      (\<exists>u. userOf (fst (meHandler d authHeader)) = Some u
         \<and> properties u = [''id'', ''email'', ''firstName'', ''lastName'', ''createdAt'']))"
  (is "(?login \<longrightarrow> ?L) \<and> (?signup \<longrightarrow> ?S) \<and> (?me \<longrightarrow> ?M)")
proof (intro conjI impI)
  assume ?login
  with loginHandler_result [of d clk email password] show ?L
    by (elim disjE exE conjE) (simp_all add: properties_def)
next
  assume ?signup
  with signupHandler_result [of d clk email' password' firstName lastName] show ?S
    by (elim disjE exE conjE) (simp_all add: properties_def)
next
  assume ?me
  with meHandler_result [of d authHeader] show ?M
    by (elim disjE exE conjE) (simp_all add: properties_def)
qed

theorem user_objects_carry_no_password_witness:
  "succeeded (fst (loginHandler mockDb \<lparr>now = 17, isoString = ''T''\<rparr>
       (Some ''john@example.com'') (Some ''password123'')))
   \<and> succeeded (fst (signupHandler mockDb \<lparr>now = 17, isoString = ''T''\<rparr>
       (Some ''new@x.com'') (Some ''password123'') None None))
   \<and> succeeded (fst (meHandler mockDb (Some ''Bearer mock-jwt-token-1'')))
   \<and> (\<exists>u. userOf (fst (loginHandler mockDb \<lparr>now = 17, isoString = ''T''\<rparr>
              (Some ''john@example.com'') (Some ''password123''))) = Some u
          \<and> ''password'' \<notin> set (properties u))
   \<and> (\<exists>u. userOf (fst (signupHandler mockDb \<lparr>now = 17, isoString = ''T''\<rparr>
              (Some ''new@x.com'') (Some ''password123'') None None)) = Some u
          \<and> ''password'' \<notin> set (properties u))
   \<and> (\<exists>u. userOf (fst (meHandler mockDb (Some ''Bearer mock-jwt-token-1''))) = Some u
          \<and> ''password'' \<notin> set (properties u))"
proof -
  have s: "succeeded (fst (loginHandler mockDb \<lparr>now = 17, isoString = ''T''\<rparr>
       (Some ''john@example.com'') (Some ''password123'')))"
    "succeeded (fst (signupHandler mockDb \<lparr>now = 17, isoString = ''T''\<rparr>
       (Some ''new@x.com'') (Some ''password123'') None None))"
    "succeeded (fst (meHandler mockDb (Some ''Bearer mock-jwt-token-1'')))"
    by (simp_all only: sample_login sample_signup sample_me succeeded_json)
  from s user_objects_carry_no_password [of mockDb "\<lparr>now = 17, isoString = ''T''\<rparr>"
      "Some ''john@example.com''" "Some ''password123''"
      "Some ''new@x.com''" "Some ''password123''" None None "Some ''Bearer mock-jwt-token-1''"]
  show ?thesis by auto
qed

section \<open>Tokens\<close>

lemma digit_decimal: "d < 10 \<Longrightarrow> decimalDigit (digit d)"
proof -
  assume "d < 10"
  then have "d \<in> {0, 1, 2, 3, 4, 5, 6, 7, 8, 9}" by auto
  then show ?thesis by (auto simp: digit_def decimalDigit_def)
qed

lemma digitValue_digit: "d < 10 \<Longrightarrow> digitValue (digit d) = Some d"
proof -
  assume "d < 10"
  then have "d \<in> {0, 1, 2, 3, 4, 5, 6, 7, 8, 9}" by auto
  then show ?thesis by (auto simp: digit_def digitValue_def)
qed

lemma decimal_char:
  assumes "decimalDigit c"
  shows "isDigitOf 10 c" and "\<not> isWhiteSpace c" and "c \<noteq> CHR ''-''" and "c \<noteq> CHR ''+''"
    and "c \<noteq> CHR '' ''" and "c \<noteq> CHR ''x''" and "c \<noteq> CHR ''X''"
  using assms by (auto simp: decimalDigit_def isDigitOf_def digitValue_def isWhiteSpace_def)

lemma numToString_decimal: "\<forall>x\<in>set (numToString n). decimalDigit x"
proof (induction n rule: numToString.induct)
  case (1 n)
  show ?case
  proof (cases "n < 10")
    case True
    then show ?thesis
      using digit_decimal [of n] by (subst numToString.simps) simp
  next
    case False
    with 1 have "\<forall>x\<in>set (numToString (n div 10)). decimalDigit x" by simp
    moreover have "decimalDigit (digit (n mod 10))"
      by (rule digit_decimal) simp
    ultimately show ?thesis
      using False by (subst numToString.simps) simp
  qed
qed

lemma numToString_not_Nil: "numToString n \<noteq> []"
  by (subst numToString.simps) simp

lemma digitsValue_snoc:
  "digitsValue r (ds @ [c]) =
     digitsValue r ds * r + (case digitValue c of None \<Rightarrow> 0 | Some d \<Rightarrow> d)"
  by (simp add: digitsValue_def)

lemma digitsValue_numToString: "digitsValue 10 (numToString n) = n"
proof (induction n rule: numToString.induct)
  case (1 n)
  show ?case
  proof (cases "n < 10")
    case True
    then show ?thesis
      by (subst numToString.simps) (simp add: digitsValue_def digitValue_digit)
  next
    case False
    with 1 have "digitsValue 10 (numToString (n div 10)) = n div 10" by simp
    then have "digitsValue 10 (numToString (n div 10) @ [digit (n mod 10)]) = n div 10 * 10 + n mod 10"
      by (simp add: digitsValue_snoc digitValue_digit)
    with False show ?thesis
      by (subst numToString.simps) simp
  qed
qed

lemma takeWhile_all: "(\<forall>x\<in>set xs. P x) \<Longrightarrow> takeWhile P xs = xs"
  by (induction xs) simp_all

lemma parseInt_numToString: "parseInt (numToString n) = Some (int n)"
proof -
  obtain c r where cr: "numToString n = c # r"
    using numToString_not_Nil [of n] by (cases "numToString n") auto
  have dec: "\<forall>x\<in>set (c # r). decimalDigit x"
    using numToString_decimal [of n] cr by simp
  then have c: "decimalDigit c" by simp
  have all: "\<forall>x\<in>set (c # r). isDigitOf 10 x"
    using dec decimal_char(1) by blast
  have nox: "\<not> startsWith (c # r) ''0x'' \<and> \<not> startsWith (c # r) ''0X''"
  proof (cases r)
    case Nil
    then show ?thesis by simp
  next
    case (Cons y ys)
    with dec have "decimalDigit y" by simp
    then have "y \<noteq> CHR ''x''" "y \<noteq> CHR ''X''" by (rule decimal_char)+
    with Cons show ?thesis by simp
  qed
  have "takeWhile (isDigitOf 10) (c # r) = c # r"
    using all by (rule takeWhile_all)
  then have "parseDigits 10 (c # r) = Some n"
    using digitsValue_numToString [of n] cr by (simp add: parseDigits_def Let_def)
  with nox have "parseUnsigned (c # r) = Some n"
    by (simp add: parseUnsigned_def del: startsWith.simps)
  then show ?thesis
    using decimal_char(2,3,4) [OF c] cr by (simp add: parseInt_def)
qed

lemma split_token:
  "split CHR ''-'' (''mock-jwt-token-'' @ numToString n @ ''-'' @ r) =
     [''mock'', ''jwt'', ''token'', numToString n] @ split CHR ''-'' r"
proof -
  have "CHR ''-'' \<notin> set (numToString n)"
    using numToString_decimal [of n] decimal_char(3) by blast
  then have "split CHR ''-'' (numToString n @ CHR ''-'' # r) = numToString n # split CHR ''-'' r"
    by (rule split_append_sep)
  then show ?thesis by simp
qed

lemma userIdOf_token:
  "userIdOf (''mock-jwt-token-'' @ numToString n @ ''-'' @ r) = Some (int n)"
  unfolding userIdOf_def split_token
  by (simp add: at_def parseInt_numToString)

lemma takeWhile_token:
  "takeWhile (\<lambda>x. x \<noteq> CHR '' '') (''mock-jwt-token-'' @ numToString n @ ''-'' @ r) =
     ''mock-jwt-token-'' @ numToString n @ ''-'' @ takeWhile (\<lambda>x. x \<noteq> CHR '' '') r"
proof -
  have "\<forall>x\<in>set (numToString n). x \<noteq> CHR '' ''"
    using numToString_decimal [of n] decimal_char(5) by blast
  then show ?thesis by (simp add: takeWhile_append2)
qed

lemma find_id: "find (\<lambda>u. Some (int (u_id u)) = Some (int n)) us = find (\<lambda>u. u_id u = n) us"
  by simp

lemma meHandler_generated:
  "meHandler d (Some (''Bearer '' @ generateMockToken n e t)) =
     (case find (\<lambda>u. u_id u = n) (users d) of
        None \<Rightarrow> (failure ''User not found'' 404, d)
      | Some u \<Rightarrow>
          (json (JObj
             [(''success'', JBool True),
              (''data'', JObj
                 [(''user'', JObj
                     [(''id'', JNum (int (u_id u))),
                      (''email'', JStr (u_email u)),
                      (''firstName'', JStr (u_firstName u)),
                      (''lastName'', JStr (u_lastName u)),
                      (''createdAt'', JStr (u_createdAt u))])])]) 200, d))"
proof -
  let ?rest = "e @ ''-'' @ numToString t"
  let ?tok = "''mock-jwt-token-'' @ numToString n @ ''-'' @ takeWhile (\<lambda>x. x \<noteq> CHR '' '') ?rest"
  have g: "generateMockToken n e t = ''mock-jwt-token-'' @ numToString n @ ''-'' @ ?rest"
    by (simp add: generateMockToken_def)
  have a: "at (split CHR '' '' (''Bearer '' @ generateMockToken n e t)) 1 = Some ?tok"
    unfolding bearer_token g takeWhile_token ..
  have b: "startsWith (''Bearer '' @ generateMockToken n e t) ''Bearer ''"
    by (rule startsWith_append)
  have c: "startsWith ?tok ''mock-jwt-token-''"
    by (rule startsWith_append)
  have d: "userIdOf ?tok = Some (int n)"
    by (rule userIdOf_token)
  have e: "?tok \<noteq> []" by simp
  have f: "''Bearer '' @ generateMockToken n e t \<noteq> []" by simp
  show ?thesis
    unfolding meHandler_def
    by (simp only: a b c d e f find_id option.case if_False not_True_eq_False simp_thms)
qed

section \<open>The current user\<close>

lemma userIdOf_abc: "userIdOf ''mock-jwt-token-abc'' = None"
  by (simp add: userIdOf_def at_def parseInt_def isWhiteSpace_def parseUnsigned_def
        parseDigits_def isDigitOf_def digitValue_def)

lemma userIdOf_7: "userIdOf ''mock-jwt-token-7'' = Some 7"
  by (simp add: userIdOf_def at_def parseInt_def isWhiteSpace_def parseUnsigned_def
        parseDigits_def isDigitOf_def digitValue_def digitsValue_def)

lemma header_samples:
  "at (split CHR '' '' ''Bearer abc'') 1 = Some t \<longleftrightarrow> t = ''abc''"
  "at (split CHR '' '' ''Bearer mock-jwt-token-7'') 1 = Some t \<longleftrightarrow> t = ''mock-jwt-token-7''"
  "at (split CHR '' '' ''Bearer mock-jwt-token-1'') 1 = Some t \<longleftrightarrow> t = ''mock-jwt-token-1''"
  by (auto simp: at_def)

text \<open>
  C6 (current-user lookup, as the code decides it). With no \<open>Authorization\<close> header, or
  one that does not start with \<open>Bearer \<close>, the answer is 401 \<open>No token provided\<close>.
  Otherwise the token is the text between the first and the second space of the header.
  If it is empty or does not start with \<open>mock-jwt-token-\<close>, the answer is 401 \<open>Invalid or
  expired token\<close>. Otherwise the identifier is what \<open>parseInt\<close> reads from the fourth
  dash-separated piece of the token; if no stored user has it (which is so when the
  piece is no number), the answer is 404 \<open>User not found\<close>; otherwise it is 200 with the
  first stored user of that identifier. The store is returned as it was.
\<close>

theorem meHandler_cases:
  "(authHeader = None \<or> authHeader = Some h \<and> \<not> startsWith h ''Bearer '' \<longrightarrow>
      meHandler d authHeader = (failure ''No token provided'' 401, d))
   \<and> (startsWith h ''Bearer '' \<longrightarrow>
        (\<exists>t. at (split CHR '' '' h) 1 = Some t
           \<and> meHandler d (Some h) =
               (if t = [] \<or> \<not> startsWith t ''mock-jwt-token-''
                then (failure ''Invalid or expired token'' 401, d)
                else (case find (\<lambda>u. Some (int (u_id u)) = userIdOf t) (users d) of
                        None \<Rightarrow> (failure ''User not found'' 404, d)
                      | Some u \<Rightarrow>
                          (\<lparr>status = 200,
                            body = JObj
                              [(''success'', JBool True),
                               (''data'', JObj
                                  [(''user'', JObj
                                      [(''id'', JNum (int (u_id u))),
                                       (''email'', JStr (u_email u)),
                                       (''firstName'', JStr (u_firstName u)),
                                       (''lastName'', JStr (u_lastName u)),
                                       (''createdAt'', JStr (u_createdAt u))])])]\<rparr>, d)))))"
  (is "(?absent \<longrightarrow> ?none) \<and> (?bearer \<longrightarrow> (\<exists>t. ?token t \<and> ?answer t))")
proof (intro conjI impI)
  assume ?absent
  then show ?none
    by (auto simp: meHandler_def)
next
  assume b: ?bearer
  then obtain t where t: "at (split CHR '' '' h) 1 = Some t"
    using bearer_has_token by blast
  from b have "h \<noteq> []" by auto
  with b t have "?answer t"
    by (simp add: meHandler_def json_def split: option.split)
  with t show "\<exists>t. ?token t \<and> ?answer t" by blast
qed

theorem meHandler_cases_witness:
  "meHandler mockDb None = (failure ''No token provided'' 401, mockDb)
   \<and> meHandler mockDb (Some ''InvalidToken'') = (failure ''No token provided'' 401, mockDb)
   \<and> meHandler mockDb (Some ''Bearer abc'') = (failure ''Invalid or expired token'' 401, mockDb)
   \<and> meHandler mockDb (Some ''Bearer mock-jwt-token-7'') = (failure ''User not found'' 404, mockDb)
   \<and> status (fst (meHandler mockDb (Some ''Bearer mock-jwt-token-1''))) = 200"
proof -
  note bearer = meHandler_cases [of None _ mockDb, THEN conjunct2, rule_format]
  have b: "startsWith ''Bearer abc'' ''Bearer ''"
    "startsWith ''Bearer mock-jwt-token-7'' ''Bearer ''"
    "startsWith ''Bearer mock-jwt-token-1'' ''Bearer ''"
    by simp_all
  have 1: "meHandler mockDb None = (failure ''No token provided'' 401, mockDb)"
    using meHandler_cases [of None "[]" mockDb] by simp
  have 2: "meHandler mockDb (Some ''InvalidToken'') = (failure ''No token provided'' 401, mockDb)"
    using meHandler_cases [of "Some ''InvalidToken''" "''InvalidToken''" mockDb] by simp
  from bearer [OF b(1)]
  have 3: "meHandler mockDb (Some ''Bearer abc'') = (failure ''Invalid or expired token'' 401, mockDb)"
    unfolding header_samples by (elim exE conjE) simp
  from bearer [OF b(2)]
  have 4: "meHandler mockDb (Some ''Bearer mock-jwt-token-7'') = (failure ''User not found'' 404, mockDb)"
    unfolding header_samples by (elim exE conjE) (simp add: userIdOf_7 mockDb_def mockUsers_def)
  from bearer [OF b(3)]
  have 5: "status (fst (meHandler mockDb (Some ''Bearer mock-jwt-token-1''))) = 200"
    unfolding header_samples by (elim exE conjE) (simp add: userIdOf_sample mockDb_def mockUsers_def)
  from 1 2 3 4 5 show ?thesis by simp
qed

text \<open>
  A token that carries the prefix but no number in its fourth piece resolves to no
  identifier, and yet is answered 404 \<open>User not found\<close>, not 401 \<open>Invalid or expired
  token\<close>.
\<close>

theorem meHandler_unresolved_token_counterexample:
  "startsWith ''Bearer mock-jwt-token-abc'' ''Bearer ''
   \<and> at (split CHR '' '' ''Bearer mock-jwt-token-abc'') 1 = Some ''mock-jwt-token-abc''
   \<and> userIdOf ''mock-jwt-token-abc'' = None
   \<and> meHandler mockDb (Some ''Bearer mock-jwt-token-abc'') =
       (\<lparr>status = 404,
         body = JObj [(''success'', JBool False), (''message'', JStr ''User not found'')]\<rparr>, mockDb)"
  by (simp add: meHandler_def at_def userIdOf_abc failure_def json_def mockDb_def mockUsers_def)

section \<open>The client store\<close>

lemma fetchUser_Rejected: "fetchUser Rejected c = (logout c)\<lparr>loading := False\<rparr>"
  by (simp add: fetchUser_def)

lemma fetchUser_not_succeeded:
  "\<not> succeeded r \<Longrightarrow> fetchUser (Parsed (body r)) c = (logout c)\<lparr>loading := False\<rparr>"
  by (simp add: fetchUser_def succeeded_def split: option.splits)

lemma fetchUser_succeeded:
  "succeeded r \<Longrightarrow> userOf r = Some u \<Longrightarrow> fetchUser (Parsed (body r)) c = c\<lparr>user := u, loading := False\<rparr>"
  by (simp add: fetchUser_def succeeded_def userOf_def split: option.splits)

lemma authenticated_Rejected: "fst (authenticated Rejected c) = c"
  by (simp add: authenticated_def)

lemma authenticated_failure: "fst (authenticated (Parsed (body (failure m st))) c) = c"
  by (simp add: authenticated_def failure_def json_def)

lemma authenticated_success:
  "fst (authenticated (Parsed (body (json (JObj
       [(''success'', JBool True), (''message'', m),
        (''data'', JObj [(''user'', u), (''token'', t)])]) st))) c)
   = c\<lparr>localStorage := Some (toString t), token := t, user := u\<rparr>"
  by (simp add: authenticated_def json_def)






section \<open>Every reachable state of the client\<close>

lemma userState_initial: "userState (initial stored)"
  by (simp add: userState_def initial_def)

lemma userState_logout: "userState (logout c)"
  by (simp add: userState_def logout_def)

lemma userState_loading [simp]: "userState (c\<lparr>loading := b\<rparr>) = userState c"
  by (simp add: userState_def userHeld_def)

lemma userState_fetchUser_Rejected: "userState (fetchUser Rejected c)"
  by (simp add: fetchUser_Rejected userState_logout)

lemma userState_fetchUser_me: "userState (fetchUser (Parsed (body (fst (meHandler d h)))) c)"
  using meHandler_result [of d h]
proof (elim disjE exE conjE)
  fix m st assume "fst (meHandler d h) = failure m st"
  then show ?thesis
    by (simp add: fetchUser_not_succeeded userState_logout)
next
  fix hh t u
  assume "fst (meHandler d h) =
    json (JObj [(''success'', JBool True),
       (''data'', JObj [(''user'', JObj
           [(''id'', JNum (int (u_id u))), (''email'', JStr (u_email u)),
            (''firstName'', JStr (u_firstName u)), (''lastName'', JStr (u_lastName u)),
            (''createdAt'', JStr (u_createdAt u))])])]) 200"
  then show ?thesis
    by (simp add: fetchUser_def json_def userState_def userHeld_def)
qed

lemma userState_tokenEffect_Rejected: "userState c \<Longrightarrow> userState (tokenEffect Rejected c)"
  by (simp add: tokenEffect_def userState_fetchUser_Rejected)

lemma userState_tokenEffect_me:
  "userState c \<Longrightarrow> userState (tokenEffect (Parsed (body (fst (meHandler d h)))) c)"
  by (simp add: tokenEffect_def userState_fetchUser_me)

lemma userState_authenticated_login:
  assumes "userState c"
  shows "userState (fst (authenticated (Parsed (body (fst (loginHandler d clk e p)))) c))"
  using loginHandler_result [of d clk e p]
proof (elim disjE exE conjE)
  fix m st assume "fst (loginHandler d clk e p) = failure m st"
  with assms show ?thesis by (simp add: authenticated_failure)
next
  fix e' p' u
  assume "fst (loginHandler d clk e p) =
     json (JObj
       [(''success'', JBool True),
        (''message'', JStr ''Login successful''),
        (''data'', JObj
           [(''user'', JObj
               [(''id'', JNum (int (u_id u))),
                (''email'', JStr (u_email u)),
                (''firstName'', JStr (u_firstName u)),
                (''lastName'', JStr (u_lastName u))]),
            (''token'', JStr (generateMockToken (u_id u) (u_email u) (now clk)))])]) 200"
  then show ?thesis
    by (simp add: authenticated_success userState_def userHeld_def)
qed

lemma userState_authenticated_signup:
  assumes "userState c"
  shows "userState (fst (authenticated (Parsed (body (fst (signupHandler d clk e p fn ln)))) c))"
  using signupHandler_result [of d clk e p fn ln]
proof (elim disjE exE conjE)
  fix m st assume "fst (signupHandler d clk e p fn ln) = failure m st"
  with assms show ?thesis by (simp add: authenticated_failure)
next
  fix e' p'
  assume "fst (signupHandler d clk e p fn ln) =
     json (JObj
       [(''success'', JBool True),
        (''message'', JStr ''User created successfully''),
        (''data'', JObj
           [(''user'', JObj
               [(''id'', JNum (int (length (users d) + 1))),
                (''email'', JStr e'),
                (''firstName'', orNull fn),
                (''lastName'', orNull ln),
                (''createdAt'', JStr (isoString clk))]),
            (''token'', JStr (generateMockToken (length (users d) + 1) e' (now clk)))])]) 201"
  then show ?thesis
    by (simp add: authenticated_success userState_def userHeld_def)
qed

lemma userState_step: "userState (app w) \<Longrightarrow> userState (app (step w ev))"
proof (cases ev)
  case (Effect online)
  assume "userState (app w)"
  with Effect show ?thesis
    by (simp add: split_beta userState_tokenEffect_Rejected userState_tokenEffect_me)
next
  case (Resolved online header)
  then show ?thesis
    by (simp add: split_beta userState_fetchUser_Rejected userState_fetchUser_me)
next
  case (Signup online clk e p fn ln)
  assume "userState (app w)"
  with Signup show ?thesis
    by (simp add: split_beta signup_def authenticated_Rejected userState_authenticated_signup)
next
  case (Login online clk e p)
  assume "userState (app w)"
  with Login show ?thesis
    by (simp add: split_beta login_def authenticated_Rejected userState_authenticated_login)
next
  case Logout
  then show ?thesis by (simp add: userState_logout)
qed

lemma userState_run: "userState (app w) \<Longrightarrow> userState (app (run w evs))"
  unfolding run_def
  by (induction evs arbitrary: w) (simp_all add: userState_step)

lemma isAuthenticated_userState: "userState c \<Longrightarrow> isAuthenticated c = userHeld c"
  by (auto simp: userState_def userHeld_def isAuthenticated_def split: jsval.splits)

text \<open>
  C8 (client state invariant). In every state the client reaches from its start, by
  any sequence of token effects, late answers to \<^verbatim>\<open>fetchUser\<close>, signups, logins and
  logouts against the service, answered or not, \<open>isAuthenticated\<close> holds exactly when a
  user record is held. At the start with a stored token the token is held and the
  client is loading, yet no user is held and \<open>isAuthenticated\<close> is false.
\<close>

theorem isAuthenticated_iff_user_held:
  "isAuthenticated (app (run (boot d stored) evs)) = userHeld (app (run (boot d stored) evs))
   \<and> token (app (run (boot d (Some t)) [])) = JStr t
   \<and> loading (app (run (boot d (Some t)) []))
   \<and> \<not> userHeld (app (run (boot d (Some t)) []))
   \<and> \<not> isAuthenticated (app (run (boot d (Some t)) []))"
proof -
  have "userState (app (boot d stored))"
    by (simp add: boot_def userState_initial)
  then have "userState (app (run (boot d stored) evs))"
    by (rule userState_run)
  then have "isAuthenticated (app (run (boot d stored) evs)) = userHeld (app (run (boot d stored) evs))"
    by (rule isAuthenticated_userState)
  then show ?thesis
    by (simp add: run_def boot_def initial_def userHeld_def isAuthenticated_def)
qed


theorem isAuthenticated_iff_user_held_witness:
  "userHeld (app (run (boot mockDb None)
      [Login True \<lparr>now = 17, isoString = ''T''\<rparr> (Some ''john@example.com'') (Some ''password123'')]))
   \<and> isAuthenticated (app (run (boot mockDb None)
      [Login True \<lparr>now = 17, isoString = ''T''\<rparr> (Some ''john@example.com'') (Some ''password123'')]))
   \<and> token (app (run (boot mockDb (Some ''stale'')) [])) = JStr ''stale''
   \<and> \<not> isAuthenticated (app (run (boot mockDb (Some ''stale'')) []))"
proof -
  have "userHeld (app (run (boot mockDb None)
      [Login True \<lparr>now = 17, isoString = ''T''\<rparr> (Some ''john@example.com'') (Some ''password123'')]))"
    by (simp add: run_def boot_def split_beta login_def sample_login authenticated_success userHeld_def)
  with isAuthenticated_iff_user_held [of mockDb None
      "[Login True \<lparr>now = 17, isoString = ''T''\<rparr> (Some ''john@example.com'') (Some ''password123'')]"
      "''stale''"]
  show ?thesis by simp
qed


section \<open>From an issued token back to the user\<close>

lemma find_distinct:
  "distinct (map f xs) \<Longrightarrow> x \<in> set xs \<Longrightarrow> find (\<lambda>v. f v = f x) xs = Some x"
  by (induction xs) (auto simp: image_iff)

lemma tokenOf_json [simp]:
  "tokenOf (json (JObj [(''success'', s), (''message'', m),
      (''data'', JObj [(''user'', u), (''token'', t)])]) st) = Some t"
  by (simp add: tokenOf_def json_def)

lemma loginHandler_store: "snd (loginHandler d clk email password) = d"
  by (simp add: loginHandler_def split: option.splits)

lemma signupHandler_store: "snd (signupHandler d clk email password firstName lastName) = d"
  by (simp add: signupHandler_def split: option.splits)

lemma meHandler_store: "snd (meHandler d authHeader) = d"
  by (simp add: meHandler_def split: option.splits)

lemma generateMockToken_samples:
  "generateMockToken 1 ''john@example.com'' 17 = ''mock-jwt-token-1-john@example.com-17''"
  "generateMockToken 3 ''new@x.com'' 17 = ''mock-jwt-token-3-new@x.com-17''"
  by (simp_all add: generateMockToken_def numToString.simps digit_def)

lemma distinct_mockUsers: "distinct (map u_id (users mockDb))"
  by (simp add: mockDb_def mockUsers_def)

lemma userIdOf_signup_sample: "userIdOf ''mock-jwt-token-3-new@x.com-17'' = Some 3"
  by (simp add: userIdOf_def at_def parseInt_def isWhiteSpace_def parseUnsigned_def
        parseDigits_def isDigitOf_def digitValue_def digitsValue_def)

text \<open>
  The round trip for login. Over a store whose identifiers are distinct, the token of a
  successful login, sent back at once as \<open>Bearer <token>\<close>, is answered by the
  current-user lookup with 200 and the user that was authenticated: the same
  identifier and email (and names) as in the login response.
\<close>

lemma login_token_round_trip:
  assumes "distinct (map u_id (users d))"
    and "succeeded (fst (loginHandler d clk email password))"
  shows "\<exists>u t. u \<in> set (users d) \<and> email = Some (u_email u)
          \<and> status (fst (loginHandler d clk email password)) = 200
          \<and> userOf (fst (loginHandler d clk email password)) =
               Some (JObj [(''id'', JNum (int (u_id u))), (''email'', JStr (u_email u)),
                           (''firstName'', JStr (u_firstName u)), (''lastName'', JStr (u_lastName u))])
          \<and> tokenOf (fst (loginHandler d clk email password)) = Some (JStr t)
          \<and> meHandler (snd (loginHandler d clk email password)) (Some (''Bearer '' @ t)) =
               (\<lparr>status = 200,
                 body = JObj
                   [(''success'', JBool True),
                    (''data'', JObj
                       [(''user'', JObj
                           [(''id'', JNum (int (u_id u))),
                            (''email'', JStr (u_email u)),
                            (''firstName'', JStr (u_firstName u)),
                            (''lastName'', JStr (u_lastName u)),
                            (''createdAt'', JStr (u_createdAt u))])])]\<rparr>, d)"
  using loginHandler_result [of d clk email password]
proof (elim disjE exE conjE)
  fix m st assume "fst (loginHandler d clk email password) = failure m st"
  with assms(2) show ?thesis by simp
next
  fix e p u
  assume e: "email = Some e"
    and f: "find (\<lambda>u. u_email u = e) (users d) = Some u"
    and r: "fst (loginHandler d clk email password) =
       json (JObj
         [(''success'', JBool True),
          (''message'', JStr ''Login successful''),
          (''data'', JObj
             [(''user'', JObj
                 [(''id'', JNum (int (u_id u))),
                  (''email'', JStr (u_email u)),
                  (''firstName'', JStr (u_firstName u)),
                  (''lastName'', JStr (u_lastName u))]),
              (''token'', JStr (generateMockToken (u_id u) (u_email u) (now clk)))])]) 200"
  from f have u: "u \<in> set (users d)" "u_email u = e"
    by (auto simp: find_Some_iff)
  with assms(1) have "find (\<lambda>v. u_id v = u_id u) (users d) = Some u"
    by (simp add: find_distinct)
  then have m: "meHandler (snd (loginHandler d clk email password))
               (Some (''Bearer '' @ generateMockToken (u_id u) (u_email u) (now clk))) =
               (\<lparr>status = 200,
                 body = JObj
                   [(''success'', JBool True),
                    (''data'', JObj
                       [(''user'', JObj
                           [(''id'', JNum (int (u_id u))),
                            (''email'', JStr (u_email u)),
                            (''firstName'', JStr (u_firstName u)),
                            (''lastName'', JStr (u_lastName u)),
                            (''createdAt'', JStr (u_createdAt u))])])]\<rparr>, d)"
    unfolding loginHandler_store by (subst meHandler_generated) (simp add: json_def)
  have s: "status (fst (loginHandler d clk email password)) = 200"
    using r by (simp add: json_def)
  have uo: "userOf (fst (loginHandler d clk email password)) =
               Some (JObj [(''id'', JNum (int (u_id u))), (''email'', JStr (u_email u)),
                           (''firstName'', JStr (u_firstName u)), (''lastName'', JStr (u_lastName u))])"
    using r by simp
  have t: "tokenOf (fst (loginHandler d clk email password)) =
               Some (JStr (generateMockToken (u_id u) (u_email u) (now clk)))"
    using r by simp
  from u e s uo t m show ?thesis by blast
qed


lemma login_token_round_trip_example:
  "distinct (map u_id (users mockDb))
   \<and> succeeded (fst (loginHandler mockDb \<lparr>now = 17, isoString = ''T''\<rparr>
         (Some ''john@example.com'') (Some ''password123'')))
   \<and> tokenOf (fst (loginHandler mockDb \<lparr>now = 17, isoString = ''T''\<rparr>
         (Some ''john@example.com'') (Some ''password123''))) =
       Some (JStr ''mock-jwt-token-1-john@example.com-17'')
   \<and> status (fst (meHandler mockDb (Some ''Bearer mock-jwt-token-1-john@example.com-17''))) = 200
   \<and> userOf (fst (meHandler mockDb (Some ''Bearer mock-jwt-token-1-john@example.com-17''))) =
       Some (JObj [(''id'', JNum 1), (''email'', JStr ''john@example.com''),
                   (''firstName'', JStr ''John''), (''lastName'', JStr ''Doe''),
                   (''createdAt'', JStr ''2024-01-15T10:30:00.000Z'')])"
proof -
  let ?r = "fst (loginHandler mockDb \<lparr>now = 17, isoString = ''T''\<rparr>
         (Some ''john@example.com'') (Some ''password123''))"
  have s: "succeeded ?r"
    by (simp only: sample_login succeeded_json)
  have t: "tokenOf ?r = Some (JStr ''mock-jwt-token-1-john@example.com-17'')"
    by (simp only: sample_login tokenOf_json generateMockToken_samples)
  from login_token_round_trip [OF distinct_mockUsers s]
  obtain u t' where u: "u \<in> set (users mockDb)" "Some ''john@example.com'' = Some (u_email u)"
    and t': "tokenOf ?r = Some (JStr t')"
    and m: "meHandler (snd (loginHandler mockDb \<lparr>now = 17, isoString = ''T''\<rparr>
                (Some ''john@example.com'') (Some ''password123''))) (Some (''Bearer '' @ t')) =
               (\<lparr>status = 200,
                 body = JObj
                   [(''success'', JBool True),
                    (''data'', JObj
                       [(''user'', JObj
                           [(''id'', JNum (int (u_id u))),
                            (''email'', JStr (u_email u)),
                            (''firstName'', JStr (u_firstName u)),
                            (''lastName'', JStr (u_lastName u)),
                            (''createdAt'', JStr (u_createdAt u))])])]\<rparr>, mockDb)"
    by blast
  from t t' have tt: "t' = ''mock-jwt-token-1-john@example.com-17''" by simp
  from u have uu: "u = hd mockUsers"
    by (auto simp: mockDb_def mockUsers_def)
  from m have "fst (meHandler mockDb (Some (''Bearer '' @ t'))) =
               \<lparr>status = 200,
                 body = JObj
                   [(''success'', JBool True),
                    (''data'', JObj
                       [(''user'', JObj
                           [(''id'', JNum (int (u_id u))),
                            (''email'', JStr (u_email u)),
                            (''firstName'', JStr (u_firstName u)),
                            (''lastName'', JStr (u_lastName u)),
                            (''createdAt'', JStr (u_createdAt u))])])]\<rparr>"
    by (simp add: loginHandler_store)
  then have "status (fst (meHandler mockDb (Some ''Bearer mock-jwt-token-1-john@example.com-17''))) = 200
   \<and> userOf (fst (meHandler mockDb (Some ''Bearer mock-jwt-token-1-john@example.com-17''))) =
       Some (JObj [(''id'', JNum 1), (''email'', JStr ''john@example.com''),
                   (''firstName'', JStr ''John''), (''lastName'', JStr ''Doe''),
                   (''createdAt'', JStr ''2024-01-15T10:30:00.000Z'')])"
    unfolding tt uu by (simp add: userOf_def mockUsers_def)
  with s t distinct_mockUsers show ?thesis by simp
qed

section \<open>Signup does not store the user\<close>

text \<open>
  C1 (round trip of an issued token). A token issued by signup or login, sent back at
  once as \<open>Bearer <token>\<close>, should be answered by the current-user lookup with 200 and
  the user that was created or authenticated. For login it is. For signup it is not:
  over the seeded users the signup of a new email is answered 201 with a token over the
  identifier 3, the store comes back without the new user, and the lookup with that
  token is answered 404 \<open>User not found\<close>. The client, which holds the user and the
  token after the signup, is logged out by the token effect that follows.
\<close>

theorem signup_token_not_resolved:
  "status (fst (signupHandler mockDb \<lparr>now = 17, isoString = ''T''\<rparr>
       (Some ''new@x.com'') (Some ''password123'') None None)) = 201
   \<and> tokenOf (fst (signupHandler mockDb \<lparr>now = 17, isoString = ''T''\<rparr>
       (Some ''new@x.com'') (Some ''password123'') None None)) =
       Some (JStr ''mock-jwt-token-3-new@x.com-17'')
   \<and> meHandler (snd (signupHandler mockDb \<lparr>now = 17, isoString = ''T''\<rparr>
       (Some ''new@x.com'') (Some ''password123'') None None))
         (Some ''Bearer mock-jwt-token-3-new@x.com-17'') =
       (\<lparr>status = 404,
         body = JObj [(''success'', JBool False), (''message'', JStr ''User not found'')]\<rparr>, mockDb)
   \<and> app (run (boot mockDb None)
         [Signup True \<lparr>now = 17, isoString = ''T''\<rparr>
            (Some ''new@x.com'') (Some ''password123'') None None]) =
       \<lparr>user = JObj [(''id'', JNum 3), (''email'', JStr ''new@x.com''),
                     (''firstName'', JNull), (''lastName'', JNull), (''createdAt'', JStr ''T'')],
        token = JStr ''mock-jwt-token-3-new@x.com-17'',
        loading = True,
        localStorage = Some ''mock-jwt-token-3-new@x.com-17''\<rparr>
   \<and> app (run (boot mockDb None)
         [Signup True \<lparr>now = 17, isoString = ''T''\<rparr>
            (Some ''new@x.com'') (Some ''password123'') None None,
          Effect True]) =
       \<lparr>user = JNull, token = JNull, loading = False, localStorage = None\<rparr>"
proof -
  have m: "meHandler mockDb (Some ''Bearer mock-jwt-token-3-new@x.com-17'') =
       (\<lparr>status = 404,
         body = JObj [(''success'', JBool False), (''message'', JStr ''User not found'')]\<rparr>, mockDb)"
    by (simp add: meHandler_def at_def userIdOf_signup_sample failure_def json_def mockDb_def mockUsers_def)
  define w where "w = step (boot mockDb None)
         (Signup True \<lparr>now = 17, isoString = ''T''\<rparr>
            (Some ''new@x.com'') (Some ''password123'') None None)"
  have s: "app w =
       \<lparr>user = JObj [(''id'', JNum 3), (''email'', JStr ''new@x.com''),
                     (''firstName'', JNull), (''lastName'', JNull), (''createdAt'', JStr ''T'')],
        token = JStr ''mock-jwt-token-3-new@x.com-17'',
        loading = True,
        localStorage = Some ''mock-jwt-token-3-new@x.com-17''\<rparr>"
    unfolding w_def
    by (simp add: boot_def split_beta signup_def sample_signup authenticated_success
          generateMockToken_samples initial_def)
  have d: "service w = mockDb"
    unfolding w_def by (simp add: boot_def split_beta signupHandler_store)
  have h: "authorization (app w) = ''Bearer mock-jwt-token-3-new@x.com-17''"
    by (simp add: s authorization_def)
  have e: "app (step w (Effect True)) =
       \<lparr>user = JNull, token = JNull, loading = False, localStorage = None\<rparr>"
    by (simp add: h d m split_beta) (simp add: s tokenEffect_def fetchUser_def logout_def)
  have r1: "run (boot mockDb None)
         [Signup True \<lparr>now = 17, isoString = ''T''\<rparr>
            (Some ''new@x.com'') (Some ''password123'') None None] = w"
    by (simp add: run_def w_def)
  have r2: "run (boot mockDb None)
         [Signup True \<lparr>now = 17, isoString = ''T''\<rparr>
            (Some ''new@x.com'') (Some ''password123'') None None,
          Effect True] = step w (Effect True)"
    by (simp add: run_def w_def)
  have c1: "status (fst (signupHandler mockDb \<lparr>now = 17, isoString = ''T''\<rparr>
       (Some ''new@x.com'') (Some ''password123'') None None)) = 201"
    by (simp add: sample_signup json_def)
  have c2: "tokenOf (fst (signupHandler mockDb \<lparr>now = 17, isoString = ''T''\<rparr>
       (Some ''new@x.com'') (Some ''password123'') None None)) =
       Some (JStr ''mock-jwt-token-3-new@x.com-17'')"
    by (simp add: sample_signup generateMockToken_samples)
  have c3: "meHandler (snd (signupHandler mockDb \<lparr>now = 17, isoString = ''T''\<rparr>
       (Some ''new@x.com'') (Some ''password123'') None None))
         (Some ''Bearer mock-jwt-token-3-new@x.com-17'') =
       (\<lparr>status = 404,
         body = JObj [(''success'', JBool False), (''message'', JStr ''User not found'')]\<rparr>, mockDb)"
    unfolding signupHandler_store by (rule m)
  show ?thesis
    unfolding r1 r2 by (intro conjI c1 c2 c3 s e)
qed

text \<open>
  C4 (signup validation order and outcomes). The checks come in the order shown in the
  section on signup, and when all of them pass the user should be created and the
  answer be 201. The answer is 201 and carries the new user, but no user is created:
  over the seeded users the signup of a new email with a valid password returns the
  store as it was, without the new email, and a login with the same email and password,
  made on that store, is answered 401 \<open>Invalid email or password\<close>.
\<close>

theorem signup_user_not_stored:
  "signupHandler mockDb \<lparr>now = 17, isoString = ''T''\<rparr>
       (Some ''new@x.com'') (Some ''password123'') None None =
     (\<lparr>status = 201,
       body = JObj
         [(''success'', JBool True),
          (''message'', JStr ''User created successfully''),
          (''data'', JObj
             [(''user'', JObj
                 [(''id'', JNum 3), (''email'', JStr ''new@x.com''),
                  (''firstName'', JNull), (''lastName'', JNull), (''createdAt'', JStr ''T'')]),
              (''token'', JStr ''mock-jwt-token-3-new@x.com-17'')])]\<rparr>, mockDb)
   \<and> ''new@x.com'' \<notin> u_email ` set (users (snd (signupHandler mockDb \<lparr>now = 17, isoString = ''T''\<rparr>
       (Some ''new@x.com'') (Some ''password123'') None None)))
   \<and> loginHandler (snd (signupHandler mockDb \<lparr>now = 17, isoString = ''T''\<rparr>
       (Some ''new@x.com'') (Some ''password123'') None None))
         \<lparr>now = 18, isoString = ''U''\<rparr> (Some ''new@x.com'') (Some ''password123'') =
     (\<lparr>status = 401,
       body = JObj [(''success'', JBool False),
                    (''message'', JStr ''Invalid email or password'')]\<rparr>, mockDb)"
proof -
  have a: "fst (signupHandler mockDb \<lparr>now = 17, isoString = ''T''\<rparr>
       (Some ''new@x.com'') (Some ''password123'') None None) =
     \<lparr>status = 201,
       body = JObj
         [(''success'', JBool True),
          (''message'', JStr ''User created successfully''),
          (''data'', JObj
             [(''user'', JObj
                 [(''id'', JNum 3), (''email'', JStr ''new@x.com''),
                  (''firstName'', JNull), (''lastName'', JNull), (''createdAt'', JStr ''T'')]),
              (''token'', JStr ''mock-jwt-token-3-new@x.com-17'')])]\<rparr>"
    by (simp add: sample_signup generateMockToken_samples json_def)
  have b: "''new@x.com'' \<notin> u_email ` set (users mockDb)"
    by (simp add: mockDb_def mockUsers_def)
  have c: "loginHandler mockDb \<lparr>now = 18, isoString = ''U''\<rparr> (Some ''new@x.com'') (Some ''password123'') =
     (\<lparr>status = 401,
       body = JObj [(''success'', JBool False),
                    (''message'', JStr ''Invalid email or password'')]\<rparr>, mockDb)"
    by (simp add: loginHandler_def failure_def json_def mockDb_def mockUsers_def)
  from a b c show ?thesis
    by (simp add: signupHandler_store prod_eq_iff)
qed

section \<open>Signing up twice\<close>

lemma test_emailRegex_Nil: "\<not> test emailRegex []"
  by (simp add: emailRegex_def Many1_def)

lemma signupHandler_created:
  assumes "test emailRegex e" and "6 \<le> length p" and "e \<notin> u_email ` set (users d)"
  shows "status (fst (signupHandler d clk (Some e) (Some p) fn ln)) = 201"
proof -
  from assms(1) have "e \<noteq> []" using test_emailRegex_Nil by auto
  moreover from assms(2) have "p \<noteq> []" by auto
  moreover from assms(3) have "find (\<lambda>u. u_email u = e) (users d) = None"
    by (simp add: find_email_None)
  ultimately show ?thesis
    using assms(1,2) by (simp add: signupHandler_def json_def)
qed

lemma signupHandler_conflict:
  assumes "test emailRegex e" and "6 \<le> length p" and "e \<in> u_email ` set (users d)"
  shows "signupHandler d clk (Some e) (Some p) fn ln =
        (\<lparr>status = 409,
          body = JObj [(''success'', JBool False),
                       (''message'', JStr ''User with this email already exists'')]\<rparr>, d)"
proof -
  from assms(1) have "e \<noteq> []" using test_emailRegex_Nil by auto
  moreover from assms(2) have "p \<noteq> []" by auto
  moreover from assms(3) obtain u where "find (\<lambda>u. u_email u = e) (users d) = Some u"
    using find_email_Some by blast
  ultimately show ?thesis
    using assms(1,2) by (simp add: signupHandler_def failure_def json_def)
qed

text \<open>
  C2 (signing up twice). Two signups in succession with the same well-formed new email
  and a valid password should be answered 201 and then 409 \<open>User with this email
  already exists\<close>. Over the seeded users the first is answered 201 and returns the
  store as it was, so the second, made on that store, is answered 201 again, not 409.
\<close>

theorem signup_twice_both_created:
  "status (fst (signupHandler mockDb \<lparr>now = 17, isoString = ''T''\<rparr>
         (Some ''new@x.com'') (Some ''password123'') None None)) = 201
   \<and> snd (signupHandler mockDb \<lparr>now = 17, isoString = ''T''\<rparr>
         (Some ''new@x.com'') (Some ''password123'') None None) = mockDb
   \<and> status (fst (signupHandler
         (snd (signupHandler mockDb \<lparr>now = 17, isoString = ''T''\<rparr>
            (Some ''new@x.com'') (Some ''password123'') None None))
         \<lparr>now = 17, isoString = ''T''\<rparr> (Some ''new@x.com'') (Some ''password123'') None None)) = 201
   \<and> status (fst (signupHandler
         (snd (signupHandler mockDb \<lparr>now = 17, isoString = ''T''\<rparr>
            (Some ''new@x.com'') (Some ''password123'') None None))
         \<lparr>now = 17, isoString = ''T''\<rparr> (Some ''new@x.com'') (Some ''password123'') None None)) \<noteq> 409"
  by (simp add: signupHandler_store sample_signup json_def)


section \<open>What makes a token acceptable\<close>

lemma no_space_token:
  "CHR '' '' \<notin> set t \<Longrightarrow> at (split CHR '' '' (''Bearer '' @ t)) 1 = Some t"
proof -
  assume "CHR '' '' \<notin> set t"
  then have "takeWhile (\<lambda>x. x \<noteq> CHR '' '') t = t"
    by (intro takeWhile_all) auto
  then show ?thesis by (simp only: bearer_token)
qed

lemma generated_has_dash:
  "generateMockToken n e i \<noteq> ''mock-jwt-token-1''"
proof
  assume "generateMockToken n e i = ''mock-jwt-token-1''"
  then have "drop 15 (generateMockToken n e i) = ''1''" by simp
  then have "numToString n @ ''-'' @ e @ ''-'' @ numToString i = ''1''"
    by (simp add: generateMockToken_def)
  then have "CHR ''-'' \<in> set ''1''"
    by (metis in_set_conv_decomp append_Cons append_assoc)
  then show False by simp
qed

lemma parseInt_2: "parseInt ''2'' = Some 2"
  by (simp add: parseInt_def isWhiteSpace_def parseUnsigned_def
        parseDigits_def isDigitOf_def digitValue_def digitsValue_def)

text \<open>
  C10 (a token is accepted on its prefix and identifier alone). Whatever token the
  current-user lookup takes from a \<open>Bearer\<close> header (any text without a space is taken
  whole), if it starts with \<open>mock-jwt-token-\<close> and \<open>parseInt\<close> reads from its fourth
  dash-separated piece the identifier of a stored user, the answer is 200 with that
  user. Nothing else of the token is looked at: a token issued over a stored user is
  accepted whatever its time of issue, so none is ever rejected as expired, and
  \<open>mock-jwt-token-1\<close>, which no signup or login issues, is accepted over the seeded
  users.
\<close>

theorem token_accepted_by_prefix_and_id:
  "(startsWith h ''Bearer '' \<and> at (split CHR '' '' h) 1 = Some t
      \<and> startsWith t ''mock-jwt-token-''
      \<and> at (split CHR ''-'' t) 3 = Some part \<and> parseInt part = Some k
      \<and> find (\<lambda>v. int (u_id v) = k) (users d) = Some u
    \<longrightarrow> meHandler d (Some h) =
          (\<lparr>status = 200,
            body = JObj
              [(''success'', JBool True),
               (''data'', JObj
                  [(''user'', JObj
                      [(''id'', JNum (int (u_id u))),
                       (''email'', JStr (u_email u)),
                       (''firstName'', JStr (u_firstName u)),
                       (''lastName'', JStr (u_lastName u)),
                       (''createdAt'', JStr (u_createdAt u))])])]\<rparr>, d))
   \<and> (CHR '' '' \<notin> set t' \<longrightarrow> at (split CHR '' '' (''Bearer '' @ t')) 1 = Some t')
   \<and> (find (\<lambda>v. u_id v = n) (users d) = Some u' \<longrightarrow>
        meHandler d (Some (''Bearer '' @ generateMockToken n e issued)) =
          (\<lparr>status = 200,
            body = JObj
              [(''success'', JBool True),
               (''data'', JObj
                  [(''user'', JObj
                      [(''id'', JNum (int (u_id u'))),
                       (''email'', JStr (u_email u')),
                       (''firstName'', JStr (u_firstName u')),
                       (''lastName'', JStr (u_lastName u')),
                       (''createdAt'', JStr (u_createdAt u'))])])]\<rparr>, d))
   \<and> generateMockToken n e issued \<noteq> ''mock-jwt-token-1''
   \<and> status (fst (meHandler mockDb (Some ''Bearer mock-jwt-token-1''))) = 200"
  (is "(?taken \<longrightarrow> ?accepted) \<and> (?spaceless \<longrightarrow> ?whole) \<and> (?stored \<longrightarrow> ?current)
        \<and> ?unissued \<and> ?sample")
proof (intro conjI impI)
  assume a: ?taken
  then have "h \<noteq> []" "t \<noteq> []" by auto
  moreover from a have "userIdOf t = Some k" by (simp add: userIdOf_def)
  moreover have "(\<lambda>v. Some (int (u_id v)) = Some k) = (\<lambda>v. int (u_id v) = k)" by simp
  ultimately show ?accepted
    using a by (simp add: meHandler_def json_def)
next
  assume ?spaceless
  then show ?whole
    by (rule no_space_token)
next
  assume ?stored
  then show ?current
    by (subst meHandler_generated) (simp add: json_def)
next
  show ?unissued
    by (rule generated_has_dash)
next
  show ?sample
    by (simp add: sample_me json_def)
qed

theorem token_accepted_by_prefix_and_id_witness:
  "startsWith ''Bearer mock-jwt-token-2-x'' ''Bearer ''
   \<and> at (split CHR '' '' ''Bearer mock-jwt-token-2-x'') 1 = Some ''mock-jwt-token-2-x''
   \<and> startsWith ''mock-jwt-token-2-x'' ''mock-jwt-token-''
   \<and> at (split CHR ''-'' ''mock-jwt-token-2-x'') 3 = Some ''2''
   \<and> parseInt ''2'' = Some 2
   \<and> find (\<lambda>v. int (u_id v) = 2) (users mockDb) = Some (mockUsers ! 1)
   \<and> find (\<lambda>v. u_id v = 1) (users mockDb) = Some (mockUsers ! 0)
   \<and> (\<forall>issued. generateMockToken 2 ''x'' issued \<noteq> ''mock-jwt-token-2-x'')
   \<and> userOf (fst (meHandler mockDb (Some ''Bearer mock-jwt-token-2-x''))) =
       Some (JObj [(''id'', JNum 2), (''email'', JStr ''jane@example.com''),
                   (''firstName'', JStr ''Jane''), (''lastName'', JStr ''Smith''),
                   (''createdAt'', JStr ''2024-01-20T14:45:00.000Z'')])
   \<and> status (fst (meHandler mockDb
         (Some (''Bearer '' @ generateMockToken 1 ''john@example.com'' 0)))) = 200"
proof -
  have a: "startsWith ''Bearer mock-jwt-token-2-x'' ''Bearer ''
   \<and> at (split CHR '' '' ''Bearer mock-jwt-token-2-x'') 1 = Some ''mock-jwt-token-2-x''
   \<and> startsWith ''mock-jwt-token-2-x'' ''mock-jwt-token-''
   \<and> at (split CHR ''-'' ''mock-jwt-token-2-x'') 3 = Some ''2''
   \<and> parseInt ''2'' = Some 2
   \<and> find (\<lambda>v. int (u_id v) = 2) (users mockDb) = Some (mockUsers ! 1)"
    by (simp add: at_def parseInt_2 mockDb_def mockUsers_def)
  have b: "find (\<lambda>v. u_id v = 1) (users mockDb) = Some (mockUsers ! 0)"
    by (simp add: mockDb_def mockUsers_def)
  have c: "\<forall>issued. generateMockToken 2 ''x'' issued \<noteq> ''mock-jwt-token-2-x''"
  proof
    fix issued
    show "generateMockToken 2 ''x'' issued \<noteq> ''mock-jwt-token-2-x''"
    proof
      assume "generateMockToken 2 ''x'' issued = ''mock-jwt-token-2-x''"
      then have "numToString issued = []"
        by (simp add: generateMockToken_def numToString.simps [of 2] digit_def)
      then show False by (simp add: numToString_not_Nil)
    qed
  qed
  from token_accepted_by_prefix_and_id [of "''Bearer mock-jwt-token-2-x''" "''mock-jwt-token-2-x''"
      "''2''" 2 mockDb "mockUsers ! 1" "[]" 1 "mockUsers ! 0" "''john@example.com''" 0] a b
  have "meHandler mockDb (Some ''Bearer mock-jwt-token-2-x'') =
          (\<lparr>status = 200,
            body = JObj
              [(''success'', JBool True),
               (''data'', JObj
                  [(''user'', JObj
                      [(''id'', JNum (int (u_id (mockUsers ! 1)))),
                       (''email'', JStr (u_email (mockUsers ! 1))),
                       (''firstName'', JStr (u_firstName (mockUsers ! 1))),
                       (''lastName'', JStr (u_lastName (mockUsers ! 1))),
                       (''createdAt'', JStr (u_createdAt (mockUsers ! 1)))])])]\<rparr>, mockDb)"
    and "status (fst (meHandler mockDb
         (Some (''Bearer '' @ generateMockToken 1 ''john@example.com'' 0)))) = 200"
    by simp_all
  then have "userOf (fst (meHandler mockDb (Some ''Bearer mock-jwt-token-2-x''))) =
       Some (JObj [(''id'', JNum 2), (''email'', JStr ''jane@example.com''),
                   (''firstName'', JStr ''Jane''), (''lastName'', JStr ''Smith''),
                   (''createdAt'', JStr ''2024-01-20T14:45:00.000Z'')])"
    and "status (fst (meHandler mockDb
         (Some (''Bearer '' @ generateMockToken 1 ''john@example.com'' 0)))) = 200"
    by (simp_all add: userOf_def mockUsers_def)
  with a b c show ?thesis by blast
qed


end
